theory Spec2Isabelle
  imports Complex_Main
begin

section \<open>Unscented Kalman filter (src/ukf.cpp): a shallow embedding\<close>

text \<open>
  The filter of \<^verbatim>\<open>src/ukf.cpp\<close> is embedded function by function. The C++ type
  \<^verbatim>\<open>double\<close> (and the \<^verbatim>\<open>float\<close> temporaries of the initialisation branch) is
  read as the type \<^typ>\<open>real\<close>: rounding is not modelled, every arithmetic operation
  is the exact one. A division whose divisor is data and happens to be zero has, in IEEE
  arithmetic, an infinity or a NaN as its result; that value is not a real number, so the
  embedding returns a \<open>fault\<close> there instead of HOL's \<open>x / 0 = 0\<close>. The fault is not
  an exception of the C++, which goes on computing with the infinity or the NaN: it
  records that the quotient has been formed with a zero divisor and which of the two its
  value is, and that from there on the filter's state is no vector of reals.
\<close>

subsection \<open>Eigen vectors and matrices\<close>

text \<open>
  A \<^verbatim>\<open>VectorXd\<close> is a function from the index to the coefficient, a \<^verbatim>\<open>MatrixXd\<close>
  a function from row and column, as the accessors \<^verbatim>\<open>v(i)\<close> and \<^verbatim>\<open>M(r, c)\<close> read
  them. The sizes are the constants the constructor allocates (5, 7, 15, and 2 or 3 in
  the updates); the code never reads or writes outside of them, and no theorem below
  speaks about an index outside of them.
\<close>

type_synonym vec = "nat \<Rightarrow> real"
type_synonym mat = "nat \<Rightarrow> nat \<Rightarrow> real"

definition col :: "mat \<Rightarrow> nat \<Rightarrow> vec" where
  "col M i = (\<lambda>r. M r i)"

definition set_col :: "mat \<Rightarrow> nat \<Rightarrow> vec \<Rightarrow> mat" where
  "set_col M i v = (\<lambda>r c. if c = i then v r else M r c)"

definition set_coeff :: "mat \<Rightarrow> nat \<Rightarrow> nat \<Rightarrow> real \<Rightarrow> mat" where
  "set_coeff M i j a = (\<lambda>r c. if r = i \<and> c = j then a else M r c)"

definition vadd :: "vec \<Rightarrow> vec \<Rightarrow> vec" where
  "vadd u v = (\<lambda>r. u r + v r)"

definition vsub :: "vec \<Rightarrow> vec \<Rightarrow> vec" where
  "vsub u v = (\<lambda>r. u r - v r)"

definition smul :: "real \<Rightarrow> vec \<Rightarrow> vec" where
  "smul a v = (\<lambda>r. a * v r)"

definition madd :: "mat \<Rightarrow> mat \<Rightarrow> mat" where
  "madd A B = (\<lambda>r c. A r c + B r c)"

definition msub :: "mat \<Rightarrow> mat \<Rightarrow> mat" where
  "msub A B = (\<lambda>r c. A r c - B r c)"

definition transpose_m :: "mat \<Rightarrow> mat" where
  "transpose_m A = (\<lambda>r c. A c r)"

text \<open>\<^verbatim>\<open>w * u * v.transpose()\<close>: the scaled outer product of two vectors.\<close>

definition outer :: "real \<Rightarrow> vec \<Rightarrow> vec \<Rightarrow> mat" where
  "outer w u v = (\<lambda>r c. w * u r * v c)"

text \<open>Products; \<open>k\<close> is the inner dimension (columns of the left factor).\<close>

definition mmul :: "nat \<Rightarrow> mat \<Rightarrow> mat \<Rightarrow> mat" where
  "mmul k A B = (\<lambda>r c. \<Sum>j<k. A r j * B j c)"

definition mvmul :: "nat \<Rightarrow> mat \<Rightarrow> vec \<Rightarrow> vec" where
  "mvmul k A v = (\<lambda>r. \<Sum>j<k. A r j * v j)"

definition identity_m :: mat where
  "identity_m = (\<lambda>r c. if r = c then 1 else 0)"

text \<open>
  \<^verbatim>\<open>VectorXd(n)\<close> and \<^verbatim>\<open>MatrixXd(r, c)\<close> allocate without initialising: the
  coefficients are unspecified until they are written.
\<close>

definition VectorXd :: "nat \<Rightarrow> vec" where
  "VectorXd n = (\<lambda>_. undefined)"

definition MatrixXd :: "nat \<Rightarrow> nat \<Rightarrow> mat" where
  "MatrixXd rows cols = (\<lambda>_ _. undefined)"

text \<open>
  The comma initialiser \<^verbatim>\<open>v << a, b, ...\<close> writes the listed coefficients in order (row
  by row for a matrix of \<open>cols\<close> columns).
\<close>

definition comma_v :: "vec \<Rightarrow> real list \<Rightarrow> vec" where
  "comma_v v xs = (\<lambda>i. if i < length xs then xs ! i else v i)"

definition comma_m :: "mat \<Rightarrow> nat \<Rightarrow> real list \<Rightarrow> mat" where
  "comma_m M cols xs =
     (\<lambda>r c. if c < cols \<and> r * cols + c < length xs then xs ! (r * cols + c) else M r c)"

text \<open>\<^verbatim>\<open>v.head(n) = u\<close> and \<^verbatim>\<open>M.topLeftCorner(p, q) = A\<close>.\<close>

definition set_head :: "vec \<Rightarrow> nat \<Rightarrow> vec \<Rightarrow> vec" where
  "set_head v n u = (\<lambda>r. if r < n then u r else v r)"

definition set_topLeftCorner :: "mat \<Rightarrow> nat \<Rightarrow> nat \<Rightarrow> mat \<Rightarrow> mat" where
  "set_topLeftCorner M p q A = (\<lambda>r c. if r < p \<and> c < q then A r c else M r c)"

subsection \<open>Faults\<close>

text \<open>
  The value of a quotient \<^verbatim>\<open>a / b\<close> with \<open>b = 0\<close>: a NaN when \<open>a = 0\<close> too, an infinity
  (of either sign) otherwise.
\<close>

datatype ieee_special = NaN | Infinite

datatype fault = DivisionByZero ieee_special | SingularMatrix

definition and_then :: "fault + 'a \<Rightarrow> ('a \<Rightarrow> fault + 'b) \<Rightarrow> fault + 'b" where
  "and_then r f = (case r of Inl e \<Rightarrow> Inl e | Inr a \<Rightarrow> f a)"

definition fdiv :: "real \<Rightarrow> real \<Rightarrow> fault + real" where
  "fdiv a b =
     (if b = 0 then Inl (DivisionByZero (if a = 0 then NaN else Infinite)) else Inr (a / b))"

text \<open>
  A counted loop whose body may fault: \<^verbatim>\<open>for (i = ...; i < n; i++) body\<close> over the
  list of its indices, stopping at the first fault.
\<close>

fun for_loop :: "nat list \<Rightarrow> (nat \<Rightarrow> 's \<Rightarrow> fault + 's) \<Rightarrow> 's \<Rightarrow> fault + 's" where
  "for_loop [] body s = Inr s"
| "for_loop (i # ns) body s =
     (case body i s of Inl e \<Rightarrow> Inl e | Inr s' \<Rightarrow> for_loop ns body s')"

subsection \<open>Angle normalization\<close>

text \<open>
  \<^verbatim>\<open>while (a > M_PI) a -= 2. * M_PI;  while (a < -M_PI) a += 2. * M_PI;\<close>
  The same two loops are written out at every residual of a heading or a bearing
  (lines 256-257, 360-361, 392-393, 399-400, 412-413). Over the reals both loops end
  for every input, which the termination proofs below establish.
\<close>

definition M_PI :: real where
  "M_PI = pi"

function norm_down :: "real \<Rightarrow> real" where
  "norm_down a = (if a > M_PI then norm_down (a - 2 * M_PI) else a)"
  by pat_completeness auto
termination
proof (relation "measure (\<lambda>a. nat \<lceil>a / (2 * pi)\<rceil>)")
  show "wf (measure (\<lambda>a. nat \<lceil>a / (2 * pi)\<rceil>))" by simp
next
  fix a :: real
  assume h: "M_PI < a"
  have e: "(a - 2 * M_PI) / (2 * pi) = a / (2 * pi) - 1"
    by (simp add: M_PI_def diff_divide_distrib)
  have c: "\<lceil>(a - 2 * M_PI) / (2 * pi)\<rceil> = \<lceil>a / (2 * pi)\<rceil> - 1"
    by (simp only: e ceiling_diff_one)
  have "0 < a" using h pi_gt_zero unfolding M_PI_def by linarith
  then have "0 < a / (2 * pi)" using pi_gt_zero by simp
  then have p: "0 < \<lceil>a / (2 * pi)\<rceil>" by (simp add: ceiling_less_iff)
  have "nat \<lceil>(a - 2 * M_PI) / (2 * pi)\<rceil> < nat \<lceil>a / (2 * pi)\<rceil>"
    unfolding c zless_nat_conj using p by linarith
  then show "(a - 2 * M_PI, a) \<in> measure (\<lambda>a. nat \<lceil>a / (2 * pi)\<rceil>)"
    unfolding in_measure .
qed

function norm_up :: "real \<Rightarrow> real" where
  "norm_up a = (if a < - M_PI then norm_up (a + 2 * M_PI) else a)"
  by pat_completeness auto
termination
proof (relation "measure (\<lambda>a. nat \<lceil>- a / (2 * pi)\<rceil>)")
  show "wf (measure (\<lambda>a. nat \<lceil>- a / (2 * pi)\<rceil>))" by simp
next
  fix a :: real
  assume h: "a < - M_PI"
  have e: "- (a + 2 * M_PI) / (2 * pi) = - a / (2 * pi) - 1"
    by (simp add: M_PI_def diff_divide_distrib)
  have c: "\<lceil>- (a + 2 * M_PI) / (2 * pi)\<rceil> = \<lceil>- a / (2 * pi)\<rceil> - 1"
    by (simp only: e ceiling_diff_one)
  have "0 < - a" using h pi_gt_zero unfolding M_PI_def by linarith
  then have "0 < - a / (2 * pi)" using pi_gt_zero by (simp only: zero_less_divide_iff) simp
  then have p: "0 < \<lceil>- a / (2 * pi)\<rceil>" unfolding less_ceiling_iff of_int_0 .
  have "nat \<lceil>- (a + 2 * M_PI) / (2 * pi)\<rceil> < nat \<lceil>- a / (2 * pi)\<rceil>"
    unfolding c zless_nat_conj using p by linarith
  then show "(a + 2 * M_PI, a) \<in> measure (\<lambda>a. nat \<lceil>- a / (2 * pi)\<rceil>)"
    unfolding in_measure .
qed

definition angle_normalization :: "real \<Rightarrow> real" where
  "angle_normalization a = norm_up (norm_down a)"

declare norm_down.simps [simp del] norm_up.simps [simp del]

subsection \<open>Library functions the filter calls\<close>

text \<open>
  The C library's \<^verbatim>\<open>atan2(y, x)\<close> over the reals: the angle of the point \<open>(x, y)\<close> in
  \<open>(-\<pi>, \<pi>]\<close>, and 0 at the origin.
\<close>

definition atan2 :: "real \<Rightarrow> real \<Rightarrow> real" where
  "atan2 y x =
     (if 0 < x then arctan (y / x)
      else if x < 0 \<and> 0 \<le> y then arctan (y / x) + pi
      else if x < 0 then arctan (y / x) - pi
      else if 0 < y then pi / 2
      else if y < 0 then - (pi / 2)
      else 0)"

text \<open>
  Modelled from the spec: "the lower Cholesky factor L of the augmented covariance".
  Eigen's \<^verbatim>\<open>llt().matrixL()\<close> is not among the sources. The factor is computed column by
  column: the pivot of column \<open>k\<close> is \<open>A(k,k) - \<Sum>j<k. L(k,j)^2\<close>, its square root is
  the diagonal entry, and the entries below are
  \<open>(A(i,k) - \<Sum>j<k. L(i,j) * L(k,j)) / L(k,k)\<close>. The factorisation stops at the first
  pivot that is not positive (the matrix is then not positive definite, and what is
  returned is no Cholesky factor). No theorem below depends on the factor's values
  except where it is evaluated on a positive definite matrix.
\<close>

definition llt_column :: "nat \<Rightarrow> nat \<Rightarrow> mat \<Rightarrow> mat" where
  "llt_column n k A =
     (let x = sqrt (A k k - (\<Sum>j<k. A k j * A k j))
      in (\<lambda>r c. if c = k \<and> r = k then x
                else if c = k \<and> k < r \<and> r < n then (A r k - (\<Sum>j<k. A r j * A k j)) / x
                else A r c))"

fun llt_unblocked :: "nat \<Rightarrow> nat list \<Rightarrow> mat \<Rightarrow> mat" where
  "llt_unblocked n [] A = A"
| "llt_unblocked n (k # ks) A =
     (if A k k - (\<Sum>j<k. A k j * A k j) \<le> 0 then A
      else llt_unblocked n ks (llt_column n k A))"

definition llt_matrixL :: "nat \<Rightarrow> mat \<Rightarrow> mat" where
  "llt_matrixL n A = (\<lambda>r c. if c \<le> r then llt_unblocked n [0..<n] A r c else 0)"

text \<open>
  Modelled from the spec: "gain K = P_pred H^t S^-1" and "K = Tc S^-1". Eigen's \<^verbatim>\<open>inverse()\<close> is not among the sources.
  Over the reals the inverse of the 2 x 2 innovation covariance of the lidar update and
  of the 3 x 3 one of the radar update is the adjugate divided by the determinant; a
  singular matrix has none (Eigen then divides by zero).
\<close>

definition det2 :: "mat \<Rightarrow> real" where
  "det2 A = A 0 0 * A 1 1 - A 0 1 * A 1 0"

definition inverse2 :: "mat \<Rightarrow> fault + mat" where
  "inverse2 A =
     (if det2 A = 0 then Inl SingularMatrix
      else Inr (\<lambda>r c. comma_m (MatrixXd 2 2) 2 [A 1 1, - A 0 1, - A 1 0, A 0 0] r c / det2 A))"

definition det3 :: "mat \<Rightarrow> real" where
  "det3 A = A 0 0 * (A 1 1 * A 2 2 - A 1 2 * A 2 1)
          - A 0 1 * (A 1 0 * A 2 2 - A 1 2 * A 2 0)
          + A 0 2 * (A 1 0 * A 2 1 - A 1 1 * A 2 0)"

definition inverse3 :: "mat \<Rightarrow> fault + mat" where
  "inverse3 A =
     (if det3 A = 0 then Inl SingularMatrix
      else Inr (\<lambda>r c. comma_m (MatrixXd 3 3) 3
         [A 1 1 * A 2 2 - A 1 2 * A 2 1, A 0 2 * A 2 1 - A 0 1 * A 2 2, A 0 1 * A 1 2 - A 0 2 * A 1 1,
          A 1 2 * A 2 0 - A 1 0 * A 2 2, A 0 0 * A 2 2 - A 0 2 * A 2 0, A 0 2 * A 1 0 - A 0 0 * A 1 2,
          A 1 0 * A 2 1 - A 1 1 * A 2 0, A 0 1 * A 2 0 - A 0 0 * A 2 1, A 0 0 * A 1 1 - A 0 1 * A 1 0]
         r c / det3 A))"

subsection \<open>The filter object\<close>

text \<open>
  Isabelle names cannot end in an underscore, so the members \<^verbatim>\<open>x_pred_\<close>,
  \<^verbatim>\<open>n_aug_\<close>, ... are written without it. The members that the constructor sets to a fixed number and that nothing in
  \<^verbatim>\<open>ukf.cpp\<close> assigns again are constants. \<^verbatim>\<open>lambda_ = 3 - n_aug_\<close> is an integer
  subtraction whose result is stored in the real-valued member \<^verbatim>\<open>lambda_\<close> (declared
  in \<^verbatim>\<open>ukf.h\<close>, which is not among the sources; the spec's weights
  \<open>\<lambda>/(\<lambda>+n_aug)\<close> are real quotients).
  The timestamps are 64-bit integers counting microseconds; they are read as
  unbounded integers, since their difference is far from the range's ends.
\<close>

definition n_x :: nat where "n_x = 5"
definition n_aug :: nat where "n_aug = 7"
definition std_a :: real where "std_a = 3.80"
definition std_yawdd :: real where "std_yawdd = 0.3"
definition std_laspx :: real where "std_laspx = 0.15"
definition std_laspy :: real where "std_laspy = 0.15"
definition std_radr :: real where "std_radr = 0.3"
definition std_radphi :: real where "std_radphi = 0.03"
definition std_radrd :: real where "std_radrd = 0.3"
definition lambda :: real where "lambda = real_of_int (3 - int n_aug)"

datatype SensorType = LASER | RADAR

record MeasurementPackage =
  timestamp :: int
  sensor_type :: SensorType
  raw_measurements :: vec

record ukf =
  use_laser :: bool
  use_radar :: bool
  is_initialized :: bool
  previous_timestamp :: int
  x_pred :: vec
  P_pred :: mat
  Xsig_pred :: mat
  weights :: vec
  Xsig_aug :: mat
  x_aug :: vec
  P_aug :: mat

text \<open>
  The constructor (lines 13-72). It assigns the two toggles and the initialised flag and
  allocates the vectors and matrices without writing their coefficients; the timestamp
  is not assigned either. \<open>raw\<close> is the object before construction: whatever its
  memory holds stays in every member the constructor does not write.
\<close>

definition UKF :: "ukf \<Rightarrow> ukf" where
  "UKF raw = raw\<lparr>use_laser := True, use_radar := True, is_initialized := False\<rparr>"

subsection \<open>Prediction\<close>

text \<open>\<^verbatim>\<open>GenerateSigmaPoints\<close> (lines 144-170).\<close>

definition GenerateSigmaPoints_body :: "vec \<Rightarrow> mat \<Rightarrow> nat \<Rightarrow> mat \<Rightarrow> mat" where
  "GenerateSigmaPoints_body xa L i X =
     set_col
       (set_col X (i + 1) (vadd xa (smul (sqrt (lambda + real n_aug)) (col L i))))
       (i + 1 + n_aug) (vsub xa (smul (sqrt (lambda + real n_aug)) (col L i)))"

definition GenerateSigmaPoints :: "ukf \<Rightarrow> ukf" where
  "GenerateSigmaPoints s =
     (let xa = (set_head (\<lambda>_. 0) 5 (x_pred s))(5 := 0, 6 := 0);
          Pa = set_coeff (set_coeff (set_topLeftCorner (\<lambda>_ _. 0) 5 5 (P_pred s))
                 5 5 (std_a * std_a)) 6 6 (std_yawdd * std_yawdd);
          L = llt_matrixL 7 Pa;
          X = fold (GenerateSigmaPoints_body xa L) [0..<n_aug] (set_col (\<lambda>_ _. 0) 0 xa)
      in s\<lparr>x_aug := xa, P_aug := Pa, Xsig_aug := X\<rparr>)"

text \<open>
  \<^verbatim>\<open>PredictSigmaPoints\<close> (lines 178-225); \<open>n_aug_arg\<close> is the parameter that shadows the
  member of the same name. The two quotients \<^verbatim>\<open>v / yawd\<close> are the only divisions.
\<close>

definition PredictSigmaPoints_body :: "real \<Rightarrow> nat \<Rightarrow> ukf \<Rightarrow> fault + ukf" where
  "PredictSigmaPoints_body delta_t i s =
     (let p_x = Xsig_aug s 0 i;
          p_y = Xsig_aug s 1 i;
          v = Xsig_aug s 2 i;
          yaw = Xsig_aug s 3 i;
          yawd = Xsig_aug s 4 i;
          nu_a = Xsig_aug s 5 i;
          nu_yawdd = Xsig_aug s 6 i
      in and_then
           (if \<bar>yawd\<bar> > 0.001 then
              and_then (fdiv v yawd) (\<lambda>q1.
              and_then (fdiv v yawd) (\<lambda>q2.
                Inr (p_x + q1 * (sin (yaw + yawd * delta_t) - sin yaw),
                     p_y + q2 * (cos yaw - cos (yaw + yawd * delta_t)))))
            else
              Inr (p_x + (v * delta_t * cos yaw), p_y + (v * delta_t * sin yaw)))
           (\<lambda>(px_p, py_p).
              let v_p = v;
                  yaw_p = yaw + yawd * delta_t;
                  yawd_p = yawd;
                  px_p = px_p + (0.5 * nu_a * delta_t * delta_t * cos yaw);
                  py_p = py_p + (0.5 * nu_a * delta_t * delta_t * sin yaw);
                  v_p = v_p + nu_a * delta_t;
                  yaw_p = yaw_p + (0.5 * nu_yawdd * delta_t * delta_t);
                  yawd_p = yawd_p + (nu_yawdd * delta_t)
              in Inr (s\<lparr>Xsig_pred :=
                   set_coeff (set_coeff (set_coeff (set_coeff (set_coeff (Xsig_pred s)
                     0 i px_p) 1 i py_p) 2 i v_p) 3 i yaw_p) 4 i yawd_p\<rparr>)))"

definition PredictSigmaPoints :: "nat \<Rightarrow> real \<Rightarrow> ukf \<Rightarrow> fault + ukf" where
  "PredictSigmaPoints n_aug_arg delta_t s =
     for_loop [0..<1 + (2 * n_aug_arg)] (PredictSigmaPoints_body delta_t) s"

text \<open>
  What one pass of the loop body writes into column \<open>i\<close>, as a function of the augmented
  sigma point \<open>p\<close> (column \<open>i\<close> of \<^verbatim>\<open>Xsig_aug\<close>), with HOL's total division. It is
  related to the loop, whose division is the checked one, by \<open>PredictSigmaPoints_eq\<close>.
\<close>

definition process_model :: "real \<Rightarrow> vec \<Rightarrow> vec" where
  "process_model delta_t p =
     (\<lambda>r. if r = 0 then
            (if \<bar>p 4\<bar> > 0.001 then p 0 + p 2 / p 4 * (sin (p 3 + p 4 * delta_t) - sin (p 3))
             else p 0 + p 2 * delta_t * cos (p 3))
            + 0.5 * p 5 * delta_t * delta_t * cos (p 3)
          else if r = 1 then
            (if \<bar>p 4\<bar> > 0.001 then p 1 + p 2 / p 4 * (cos (p 3) - cos (p 3 + p 4 * delta_t))
             else p 1 + p 2 * delta_t * sin (p 3))
            + 0.5 * p 5 * delta_t * delta_t * sin (p 3)
          else if r = 2 then p 2 + p 5 * delta_t
          else if r = 3 then p 3 + p 4 * delta_t + 0.5 * p 6 * delta_t * delta_t
          else p 4 + p 6 * delta_t)"

text \<open>
  \<^verbatim>\<open>PredictMeanAndCovariance\<close> (lines 232-264). Its locals \<^verbatim>\<open>x_pred_\<close> and
  \<^verbatim>\<open>P_pred_\<close> shadow the members and are copied into them at the end.
\<close>

definition x_diff_normalized :: "mat \<Rightarrow> vec \<Rightarrow> nat \<Rightarrow> vec" where
  "x_diff_normalized Xsig x i =
     (let x_diff = vsub (col Xsig i) x
      in x_diff(3 := angle_normalization (x_diff 3)))"

definition PredictMeanAndCovariance :: "ukf \<Rightarrow> ukf" where
  "PredictMeanAndCovariance s =
     (let w = fold (\<lambda>i w. w(i := 0.5 / (real n_aug + lambda))) [1..<2 * n_aug + 1]
                ((weights s)(0 := lambda / (lambda + real n_aug)));
          x = fold (\<lambda>i x. vadd x (smul (w i) (col (Xsig_pred s) i))) [0..<2 * n_aug + 1]
                (\<lambda>_. 0);
          P = fold (\<lambda>i P. let x_diff = x_diff_normalized (Xsig_pred s) x i
                            in madd P (outer (w i) x_diff x_diff)) [0..<2 * n_aug + 1]
                (\<lambda>_ _. 0)
      in s\<lparr>weights := w, x_pred := x, P_pred := P\<rparr>)"

text \<open>\<^verbatim>\<open>Prediction\<close> (lines 271-275).\<close>

definition Prediction :: "real \<Rightarrow> ukf \<Rightarrow> fault + ukf" where
  "Prediction delta_t s =
     and_then (PredictSigmaPoints n_aug delta_t (GenerateSigmaPoints s))
       (\<lambda>s. Inr (PredictMeanAndCovariance s))"

subsection \<open>Updates\<close>

text \<open>\<^verbatim>\<open>UpdateLidar\<close> (lines 281-307).\<close>

definition UpdateLidar :: "ukf \<Rightarrow> MeasurementPackage \<Rightarrow> fault + ukf" where
  "UpdateLidar s meas_package =
     (let H = comma_m (MatrixXd 2 5) 5 [1, 0, 0, 0, 0,
                                         0, 1, 0, 0, 0];
          R = comma_m (MatrixXd 2 2) 2 [0.0225, 0,
                                         0, 0.0225];
          z = raw_measurements meas_package;
          z_pred = mvmul 5 H (x_pred s);
          y = vsub z z_pred;
          Ht = transpose_m H;
          S = madd (mmul 5 (mmul 5 H (P_pred s)) Ht) R
      in and_then (inverse2 S) (\<lambda>Si.
           let PHt = mmul 5 (P_pred s) Ht;
               K = mmul 2 PHt Si;
               x = vadd (x_pred s) (mvmul 2 K y);
               I = identity_m
           in Inr (s\<lparr>x_pred := x,
                      P_pred := mmul 5 (msub I (mmul 2 K H)) (P_pred s)\<rparr>)))"

text \<open>
  \<^verbatim>\<open>UpdateRadar\<close> (lines 313-418). The loop of lines 325-343 maps every predicted sigma
  point into the measurement space; its quotient by \<^verbatim>\<open>sqrt(p_x * p_x + p_y * p_y)\<close> is
  the only division written in the function.
\<close>

definition UpdateRadar_Zsig_body :: "mat \<Rightarrow> nat \<Rightarrow> mat \<Rightarrow> fault + mat" where
  "UpdateRadar_Zsig_body Xsig i Zsig =
     (let p_x = Xsig 0 i;
          p_y = Xsig 1 i;
          v = Xsig 2 i;
          yaw = Xsig 3 i;
          v1 = cos yaw * v;
          v2 = sin yaw * v;
          Zsig = set_coeff Zsig 0 i (sqrt (p_x * p_x + p_y * p_y));
          Zsig = set_coeff Zsig 1 i (atan2 p_y p_x)
      in and_then (fdiv (p_x * v1 + p_y * v2) (sqrt (p_x * p_x + p_y * p_y)))
           (\<lambda>rho_dot. Inr (set_coeff Zsig 2 i rho_dot)))"

text \<open>
  What one pass of that loop body writes into column \<open>i\<close> of \<^verbatim>\<open>Zsig\<close>, as a function of
  the predicted sigma point \<open>p\<close> (column \<open>i\<close> of \<^verbatim>\<open>Xsig_pred_\<close>), with HOL's total
  division. It is related to the loop, whose division is the checked one, by
  \<open>UpdateRadar_Zsig_body_eq\<close> and \<open>UpdateRadar_Zsig_loop\<close>.
\<close>

definition measurement_model :: "vec \<Rightarrow> vec" where
  "measurement_model p =
     (\<lambda>r. if r = 0 then sqrt (p 0 * p 0 + p 1 * p 1)
          else if r = 1 then atan2 (p 1) (p 0)
          else (p 0 * (cos (p 3) * p 2) + p 1 * (sin (p 3) * p 2))
               / sqrt (p 0 * p 0 + p 1 * p 1))"

definition z_diff_normalized :: "vec \<Rightarrow> vec \<Rightarrow> vec" where
  "z_diff_normalized z z_pred =
     (let z_diff = vsub z z_pred
      in z_diff(1 := angle_normalization (z_diff 1)))"

definition UpdateRadar :: "ukf \<Rightarrow> MeasurementPackage \<Rightarrow> fault + ukf" where
  "UpdateRadar s meas_package =
     (let n_z = 3
      in and_then
           (for_loop [0..<2 * n_aug + 1] (UpdateRadar_Zsig_body (Xsig_pred s))
              (MatrixXd n_z (2 * n_aug + 1)))
           (\<lambda>Zsig.
              let z_pred = fold (\<lambda>i z. vadd z (smul (weights s i) (col Zsig i)))
                             [0..<2 * n_aug + 1] (\<lambda>_. 0);
                  S = fold (\<lambda>i S. let z_diff = z_diff_normalized (col Zsig i) z_pred
                                    in madd S (outer (weights s i) z_diff z_diff))
                        [0..<2 * n_aug + 1] (\<lambda>_ _. 0);
                  R = comma_m (MatrixXd n_z n_z) 3
                        [std_radr * std_radr, 0, 0,
                         0, std_radphi * std_radphi, 0,
                         0, 0, std_radrd * std_radrd];
                  S = madd S R;
                  z = raw_measurements meas_package;
                  Tc = fold (\<lambda>i Tc. let z_diff = z_diff_normalized (col Zsig i) z_pred;
                                        x_diff = x_diff_normalized (Xsig_pred s) (x_pred s) i
                                    in madd Tc (outer (weights s i) x_diff z_diff))
                         [0..<2 * n_aug + 1] (\<lambda>_ _. 0)
              in and_then (inverse3 S) (\<lambda>Si.
                   let K = mmul 3 Tc Si;
                       z_diff = z_diff_normalized z z_pred
                   in Inr (s\<lparr>x_pred := vadd (x_pred s) (mvmul 3 K z_diff),
                              P_pred := msub (P_pred s)
                                (mmul 3 (mmul 3 K S) (transpose_m K))\<rparr>))))"

subsection \<open>The entry point\<close>

text \<open>
  \<^verbatim>\<open>ProcessMeasurement\<close> (lines 80-138). Neither branch reads \<^verbatim>\<open>use_laser_\<close> or
  \<^verbatim>\<open>use_radar_\<close>, and nothing else in \<^verbatim>\<open>ukf.cpp\<close> does.
\<close>

definition ProcessMeasurement :: "ukf \<Rightarrow> MeasurementPackage \<Rightarrow> fault + ukf" where
  "ProcessMeasurement s meas_package =
     (if \<not> is_initialized s then
        (let s = (case sensor_type meas_package of
                    RADAR \<Rightarrow>
                      let rho = raw_measurements meas_package 0;
                          phi = raw_measurements meas_package 1;
                          px = rho * cos phi;
                          py = rho * sin phi
                      in s\<lparr>x_pred := comma_v (x_pred s) [px, py, 0, 0, 0]\<rparr>
                  | LASER \<Rightarrow>
                      s\<lparr>x_pred := comma_v (x_pred s)
                           [raw_measurements meas_package 0,
                            raw_measurements meas_package 1, 0, 0, 0]\<rparr>)
         in Inr (s\<lparr>previous_timestamp := timestamp meas_package,
                    is_initialized := True\<rparr>))
      else
        (let delta_t =
               real_of_int (timestamp meas_package - previous_timestamp s) / 1000000.0
         in and_then (Prediction delta_t s) (\<lambda>s.
            and_then (case sensor_type meas_package of
                        RADAR \<Rightarrow> UpdateRadar s meas_package
                      | LASER \<Rightarrow> UpdateLidar s meas_package) (\<lambda>s.
              Inr (s\<lparr>previous_timestamp := timestamp meas_package\<rparr>)))))"

subsection \<open>A concrete run\<close>

text \<open>
  An object whose memory, before construction, holds zeros except for the covariance,
  which holds a symmetric positive definite matrix (the identity, but for the variance 2
  of the heading and the covariance 1 between position x and heading). The constructor
  writes none of these coefficients.
\<close>

definition P_example :: mat where
  "P_example =
     (\<lambda>r c. if r < 5 \<and> c < 5 then
              (if r = c then (if r = 3 then 2 else 1)
               else if (r = 3 \<and> c = 0) \<or> (r = 0 \<and> c = 3) then 1 else 0)
            else 0)"

definition raw_example :: ukf where
  "raw_example =
     \<lparr>use_laser = False, use_radar = False, is_initialized = False, previous_timestamp = 0,
      x_pred = (\<lambda>_. 0), P_pred = P_example, Xsig_pred = (\<lambda>_ _. 0), weights = (\<lambda>_. 0),
      Xsig_aug = (\<lambda>_ _. 0), x_aug = (\<lambda>_. 0), P_aug = (\<lambda>_ _. 0)\<rparr>"

definition laser_measurement :: "int \<Rightarrow> real \<Rightarrow> real \<Rightarrow> MeasurementPackage" where
  "laser_measurement t x y =
     \<lparr>timestamp = t, sensor_type = LASER, raw_measurements = comma_v (VectorXd 2) [x, y]\<rparr>"

definition radar_measurement :: "int \<Rightarrow> real \<Rightarrow> real \<Rightarrow> real \<Rightarrow> MeasurementPackage" where
  "radar_measurement t rho phi rho_dot =
     \<lparr>timestamp = t, sensor_type = RADAR,
      raw_measurements = comma_v (VectorXd 3) [rho, phi, rho_dot]\<rparr>"

definition example_filter :: "bool \<Rightarrow> ukf" where
  "example_filter b = (UKF raw_example)\<lparr>use_laser := b\<rparr>"

text \<open>
  The constructed filter with the lidar toggle set to \<open>b\<close> (the constructor's value is
  \<open>True\<close>), and what the first call with a lidar measurement of the origin at time 0
  leaves (\<open>first_call_example\<close> below).
\<close>

definition initialized_example :: "bool \<Rightarrow> ukf" where
  "initialized_example b =
     (example_filter b)\<lparr>x_pred := (\<lambda>_. 0), previous_timestamp := 0, is_initialized := True\<rparr>"

text \<open>
  The augmented covariance of that filter and its lower Cholesky factor
  (\<open>llt_matrixL_example\<close> below).
\<close>

definition Pa_example :: mat where
  "Pa_example = (\<lambda>r c. if r < 5 \<and> c < 5 then P_example r c
            else if r = 5 \<and> c = 5 then std_a * std_a
            else if r = 6 \<and> c = 6 then std_yawdd * std_yawdd else 0)"

definition L_example :: mat where
  "L_example = (\<lambda>r c. if r = c \<and> r < 5 then 1
            else if r = 3 \<and> c = 0 then 1
            else if r = 5 \<and> c = 5 then 19 / 5
            else if r = 6 \<and> c = 6 then 3 / 10 else 0)"

text \<open>
  A filter whose augmented sigma point 0 is turning (speed 2, yaw rate 1) and whose other
  sigma points are zero; and a covariance content that is neither symmetric nor positive
  semi-definite.
\<close>

definition turning_example :: ukf where
  "turning_example =
     raw_example\<lparr>Xsig_aug := (\<lambda>r c. if c = 0 \<and> r = 2 then 2 else if c = 0 \<and> r = 4 then 1 else 0)\<rparr>"

text \<open>
  A filter all of whose predicted sigma points are the state \<open>(1, 0, 2, 0, 0)\<close>: one
  metre ahead on the x axis, moving along it at speed 2.
\<close>

definition radar_example :: ukf where
  "radar_example =
     raw_example\<lparr>Xsig_pred := (\<lambda>r c. if r = 0 then 1 else if r = 2 then 2 else 0)\<rparr>"

definition asymmetric_example :: mat where
  "asymmetric_example = (\<lambda>r c. if r = 0 \<and> c = 1 then 1 else if r = c then - 1 else 0)"

text \<open>
  The caller's loop: one call of \<^verbatim>\<open>ProcessMeasurement\<close> per measurement, in order. A
  component of the state vector after such a run is read with \<open>x_pred_of\<close>.
\<close>

fun process_all :: "ukf \<Rightarrow> MeasurementPackage list \<Rightarrow> fault + ukf" where
  "process_all s [] = Inr s"
| "process_all s (m # ms) = and_then (ProcessMeasurement s m) (\<lambda>s. process_all s ms)"

definition x_pred_of :: "fault + ukf \<Rightarrow> nat \<Rightarrow> fault + real" where
  "x_pred_of res i = (case res of Inl e \<Rightarrow> Inl e | Inr s \<Rightarrow> Inr (x_pred s i))"

section \<open>Properties\<close>

subsection \<open>Angle normalization\<close>

lemma norm_down_id: "a \<le> M_PI \<Longrightarrow> norm_down a = a"
  by (subst norm_down.simps) simp

lemma norm_up_id: "- M_PI \<le> a \<Longrightarrow> norm_up a = a"
  by (subst norm_up.simps) simp

lemma norm_down_le: "norm_down a \<le> M_PI"
proof (induction a rule: norm_down.induct)
  case (1 a)
  show ?case
  proof (cases "a > M_PI")
    case True
    with 1 show ?thesis by (subst norm_down.simps) simp
  next
    case False
    then show ?thesis by (subst norm_down.simps) simp
  qed
qed

lemma norm_down_ge: "- M_PI \<le> a \<Longrightarrow> - M_PI \<le> norm_down a"
proof (induction a rule: norm_down.induct)
  case (1 a)
  show ?case
  proof (cases "a > M_PI")
    case True
    then have "- M_PI \<le> a - 2 * M_PI" by simp
    with 1 True show ?thesis by (subst norm_down.simps) simp
  next
    case False
    with 1 show ?thesis by (subst norm_down.simps) simp
  qed
qed

lemma norm_up_ge: "- M_PI \<le> norm_up a"
proof (induction a rule: norm_up.induct)
  case (1 a)
  show ?case
  proof (cases "a < - M_PI")
    case True
    with 1 show ?thesis by (subst norm_up.simps) simp
  next
    case False
    then show ?thesis by (subst norm_up.simps) simp
  qed
qed

lemma norm_up_le: "a \<le> M_PI \<Longrightarrow> norm_up a \<le> M_PI"
proof (induction a rule: norm_up.induct)
  case (1 a)
  show ?case
  proof (cases "a < - M_PI")
    case True
    then have "a + 2 * M_PI \<le> M_PI" by simp
    with 1 True show ?thesis by (subst norm_up.simps) simp
  next
    case False
    with 1 show ?thesis by (subst norm_up.simps) simp
  qed
qed

lemma angle_normalization_range:
  "- M_PI \<le> angle_normalization a \<and> angle_normalization a \<le> M_PI"
  unfolding angle_normalization_def using norm_up_ge norm_up_le norm_down_le by blast

lemma angle_normalization_id:
  "- M_PI \<le> a \<Longrightarrow> a \<le> M_PI \<Longrightarrow> angle_normalization a = a"
  unfolding angle_normalization_def by (simp add: norm_down_id norm_up_id)

lemma norm_down_period: "\<exists>k::int. norm_down a = a + 2 * M_PI * of_int k"
proof (induction a rule: norm_down.induct)
  case (1 a)
  show ?case
  proof (cases "a > M_PI")
    case True
    with 1 obtain k :: int where "norm_down (a - 2 * M_PI) = a - 2 * M_PI + 2 * M_PI * of_int k"
      by blast
    then have "norm_down a = a + 2 * M_PI * of_int (k - 1)"
      using True by (subst norm_down.simps) (simp add: algebra_simps)
    then show ?thesis by blast
  next
    case False
    then have "norm_down a = a + 2 * M_PI * of_int 0" by (subst norm_down.simps) simp
    then show ?thesis by blast
  qed
qed

lemma norm_up_period: "\<exists>k::int. norm_up a = a + 2 * M_PI * of_int k"
proof (induction a rule: norm_up.induct)
  case (1 a)
  show ?case
  proof (cases "a < - M_PI")
    case True
    with 1 obtain k :: int where "norm_up (a + 2 * M_PI) = a + 2 * M_PI + 2 * M_PI * of_int k"
      by blast
    then have "norm_up a = a + 2 * M_PI * of_int (k + 1)"
      using True by (subst norm_up.simps) (simp add: algebra_simps)
    then show ?thesis by blast
  next
    case False
    then have "norm_up a = a + 2 * M_PI * of_int 0" by (subst norm_up.simps) simp
    then show ?thesis by blast
  qed
qed

lemma angle_normalization_period:
  "\<exists>k::int. angle_normalization a = a + 2 * M_PI * of_int k"
proof -
  obtain k :: int where k: "norm_down a = a + 2 * M_PI * of_int k"
    using norm_down_period by blast
  obtain j :: int where j: "norm_up (norm_down a) = norm_down a + 2 * M_PI * of_int j"
    using norm_up_period by blast
  have "angle_normalization a = a + 2 * M_PI * of_int (k + j)"
    by (simp only: angle_normalization_def j) (simp add: k algebra_simps)
  then show ?thesis by blast
qed

lemma angle_normalization_small: "\<bar>a\<bar> \<le> 2 \<Longrightarrow> angle_normalization a = a"
  using pi_ge_two by (intro angle_normalization_id) (simp_all add: M_PI_def)

subsection \<open>What the loops compute\<close>

lemma and_then_Inr [simp]: "and_then (Inr a) f = f a"
  by (simp add: and_then_def)

lemma and_then_Inl [simp]: "and_then (Inl e) f = Inl e"
  by (simp add: and_then_def)

lemma lambda_plus_n_aug: "lambda + real n_aug = 3"
  by (simp add: lambda_def n_aug_def)

lemma sum_expand:
  fixes f :: "nat \<Rightarrow> real"
  shows "(\<Sum>j<2. f j) = f 0 + f 1"
    and "(\<Sum>j<3. f j) = f 0 + f 1 + f 2"
    and "(\<Sum>j<4. f j) = f 0 + f 1 + f 2 + f 3"
    and "(\<Sum>j<5. f j) = f 0 + f 1 + f 2 + f 3 + f 4"
    and "(\<Sum>j<6. f j) = f 0 + f 1 + f 2 + f 3 + f 4 + f 5"
    and "(\<Sum>j<15. f j) = f 0 + f 1 + f 2 + f 3 + f 4 + f 5 + f 6 + f 7 + f 8 + f 9 + f 10
          + f 11 + f 12 + f 13 + f 14"
  by (simp_all add: eval_nat_numeral)

lemma sum_15_split:
  fixes f :: "nat \<Rightarrow> real"
  shows "(\<Sum>i<15. f i) = f 0 + (\<Sum>j<7. f (j + 1)) + (\<Sum>j<7. f (j + 8))"
  by (simp add: eval_nat_numeral)

lemma fold_fun_upd_upt:
  "fold (\<lambda>i w. w(i := c)) [a..<b] w0 = (\<lambda>i. if a \<le> i \<and> i < b then c else w0 i)"
proof (induction b)
  case 0
  show ?case by simp
next
  case (Suc b)
  show ?case
  proof (cases "a \<le> b")
    case True
    then show ?thesis using Suc by (auto simp: fun_eq_iff)
  next
    case False
    then show ?thesis by (auto simp: fun_eq_iff)
  qed
qed

lemma weights_PredictMeanAndCovariance:
  "weights (PredictMeanAndCovariance s) =
     (\<lambda>i. if 1 \<le> i \<and> i < 15 then 1 / 6 else if i = 0 then - (4 / 3) else weights s i)"
  by (simp add: PredictMeanAndCovariance_def Let_def fold_fun_upd_upt fun_eq_iff
      lambda_def n_aug_def)

lemma sum_weights:
  fixes w :: "nat \<Rightarrow> real"
  shows "(\<Sum>i<15. (if 1 \<le> i \<and> i < 15 then 1 / 6 else if i = 0 then - (4 / 3) else w i)) = 1"
proof -
  let ?f = "\<lambda>i::nat. if 1 \<le> i \<and> i < 15 then 1 / 6 else if i = 0 then - (4 / 3) else w i"
  have "sum ?f {..<15} = sum ?f {0..<15}" by (simp only: lessThan_atLeast0)
  also have "\<dots> = ?f 0 + sum ?f {Suc 0..<15}" by (rule sum.atLeast_Suc_lessThan) simp
  also have "sum ?f {Suc 0..<15} = (\<Sum>i\<in>{Suc 0..<15}. 1 / 6)"
    by (rule sum.cong) auto
  finally show ?thesis by simp
qed

lemma GenerateSigmaPoints_loop:
  "n \<le> n_aug \<Longrightarrow>
   fold (GenerateSigmaPoints_body xa L) [0..<n] X0 =
     (\<lambda>r c. if 1 \<le> c \<and> c \<le> n then xa r + sqrt 3 * L r (c - 1)
            else if n_aug + 1 \<le> c \<and> c \<le> n_aug + n then xa r - sqrt 3 * L r (c - 1 - n_aug)
            else X0 r c)"
proof (induction n)
  case 0
  show ?case by (simp add: fun_eq_iff)
next
  case (Suc n)
  then have IH: "fold (GenerateSigmaPoints_body xa L) [0..<n] X0 =
     (\<lambda>r c. if 1 \<le> c \<and> c \<le> n then xa r + sqrt 3 * L r (c - 1)
            else if n_aug + 1 \<le> c \<and> c \<le> n_aug + n then xa r - sqrt 3 * L r (c - 1 - n_aug)
            else X0 r c)" by simp
  have n: "n < n_aug" using Suc.prems by simp
  show ?case
    apply (simp add: IH)
    apply (simp add: GenerateSigmaPoints_body_def set_col_def vadd_def vsub_def smul_def col_def
        lambda_plus_n_aug fun_eq_iff)
    using n apply (auto simp: n_aug_def)
    done
qed

lemma x_aug_GenerateSigmaPoints:
  "x_aug (GenerateSigmaPoints s) = (\<lambda>r. if r < 5 then x_pred s r else 0)"
  by (auto simp add: GenerateSigmaPoints_def Let_def set_head_def fun_eq_iff)

lemma P_aug_GenerateSigmaPoints:
  "P_aug (GenerateSigmaPoints s) =
     (\<lambda>r c. if r < 5 \<and> c < 5 then P_pred s r c
            else if r = 5 \<and> c = 5 then std_a * std_a
            else if r = 6 \<and> c = 6 then std_yawdd * std_yawdd else 0)"
  by (auto simp add: GenerateSigmaPoints_def Let_def set_coeff_def set_topLeftCorner_def fun_eq_iff)

lemma Xsig_aug_GenerateSigmaPoints:
  "Xsig_aug (GenerateSigmaPoints s) =
     (\<lambda>r c. if 1 \<le> c \<and> c \<le> 7
              then x_aug (GenerateSigmaPoints s) r
                   + sqrt 3 * llt_matrixL 7 (P_aug (GenerateSigmaPoints s)) r (c - 1)
            else if 8 \<le> c \<and> c \<le> 14
              then x_aug (GenerateSigmaPoints s) r
                   - sqrt 3 * llt_matrixL 7 (P_aug (GenerateSigmaPoints s)) r (c - 8)
            else if c = 0 then x_aug (GenerateSigmaPoints s) r else 0)"
proof -
  have "fold (GenerateSigmaPoints_body xa L) [0..<n_aug] X0 =
     (\<lambda>r c. if 1 \<le> c \<and> c \<le> 7 then xa r + sqrt 3 * L r (c - 1)
            else if 8 \<le> c \<and> c \<le> 14 then xa r - sqrt 3 * L r (c - 8)
            else X0 r c)" for xa L X0
    using GenerateSigmaPoints_loop [of n_aug xa L X0] unfolding n_aug_def
    by (simp add: fun_eq_iff cong: if_cong)
  then show ?thesis
    by (simp add: GenerateSigmaPoints_def Let_def set_col_def fun_eq_iff)
qed

lemma llt_matrixL_upper: "r < c \<Longrightarrow> llt_matrixL n A r c = 0"
  by (simp add: llt_matrixL_def)

lemma for_loop_append:
  "for_loop (xs @ ys) body s = and_then (for_loop xs body s) (for_loop ys body)"
  by (induction xs arbitrary: s) (auto split: sum.splits)

lemma for_loop_fault:
  "i \<in> set ns \<Longrightarrow> (\<And>Z. body i Z = Inl e) \<Longrightarrow> (\<And>j Z e'. body j Z = Inl e' \<Longrightarrow> e' = e)
   \<Longrightarrow> for_loop ns body Z = Inl e"
proof (induction ns arbitrary: Z)
  case Nil
  then show ?case by simp
next
  case (Cons j ns)
  show ?case
  proof (cases "body j Z")
    case (Inl e')
    then show ?thesis using Cons.prems(3) by simp
  next
    case (Inr Z')
    then have "i \<noteq> j" using Cons.prems(2) [of Z] by auto
    then have "i \<in> set ns" using Cons.prems(1) by simp
    then show ?thesis using Cons.IH [of Z'] Cons.prems(2,3) Inr by simp
  qed
qed

lemma PredictSigmaPoints_body_eq:
  "PredictSigmaPoints_body dt i s =
     Inr (s\<lparr>Xsig_pred := (\<lambda>r c. if c = i \<and> r < 5 then process_model dt (col (Xsig_aug s) i) r
                                else Xsig_pred s r c)\<rparr>)"
proof -
  have X: "set_coeff (set_coeff (set_coeff (set_coeff (set_coeff M 0 i a) 1 i b) 2 i c) 3 i d) 4 i e
      = (\<lambda>r k. if k = i \<and> r < 5 then (if r = 0 then a else if r = 1 then b else if r = 2 then c
            else if r = 3 then d else e) else M r k)" for M a b c d e
    by (auto simp: set_coeff_def fun_eq_iff)
  show ?thesis
    unfolding PredictSigmaPoints_body_def Let_def X
    by (auto simp: fdiv_def process_model_def col_def fun_eq_iff intro!: ukf.equality)
qed

lemma PredictSigmaPoints_loop:
  "for_loop [0..<n] (PredictSigmaPoints_body dt) s =
     Inr (s\<lparr>Xsig_pred := (\<lambda>r c. if c < n \<and> r < 5 then process_model dt (col (Xsig_aug s) c) r
                                else Xsig_pred s r c)\<rparr>)"
proof (induction n)
  case 0
  show ?case by simp
next
  case (Suc n)
  let ?s = "s\<lparr>Xsig_pred := (\<lambda>r c. if c < n \<and> r < 5 then process_model dt (col (Xsig_aug s) c) r
                                else Xsig_pred s r c)\<rparr>"
  have "for_loop [0..<Suc n] (PredictSigmaPoints_body dt) s
      = and_then (for_loop [0..<n] (PredictSigmaPoints_body dt) s)
          (for_loop [n] (PredictSigmaPoints_body dt))"
    by (simp only: upt_Suc_append for_loop_append le0 if_True)
  also have "\<dots> = for_loop [n] (PredictSigmaPoints_body dt) ?s"
    by (simp only: Suc and_then_Inr)
  also have "\<dots> = PredictSigmaPoints_body dt n ?s"
    by (simp only: for_loop.simps PredictSigmaPoints_body_eq sum.case)
  also have "\<dots> = Inr (s\<lparr>Xsig_pred := (\<lambda>r c. if c < Suc n \<and> r < 5
                                then process_model dt (col (Xsig_aug s) c) r
                                else Xsig_pred s r c)\<rparr>)"
    unfolding PredictSigmaPoints_body_eq
    by (auto simp: fun_eq_iff less_Suc_eq intro!: ukf.equality)
  finally show ?case .
qed

lemma PredictSigmaPoints_eq:
  "PredictSigmaPoints n_aug dt s =
     Inr (s\<lparr>Xsig_pred := (\<lambda>r c. if c < 15 \<and> r < 5 then process_model dt (col (Xsig_aug s) c) r
                                else Xsig_pred s r c)\<rparr>)"
  unfolding PredictSigmaPoints_def PredictSigmaPoints_loop by (simp add: n_aug_def)

lemma fold_vadd_smul:
  "fold (\<lambda>i x. vadd x (smul (w i) (col X i))) [0..<n] x0 = (\<lambda>r. x0 r + (\<Sum>i<n. w i * X r i))"
  by (induction n) (auto simp: vadd_def smul_def col_def fun_eq_iff)

lemma fold_madd_outer:
  "fold (\<lambda>i P. madd P (outer (w i) (D i) (E i))) [0..<n] P0
     = (\<lambda>r c. P0 r c + (\<Sum>i<n. w i * D i r * E i c))"
  by (induction n) (auto simp: madd_def outer_def fun_eq_iff)

lemma x_pred_PredictMeanAndCovariance:
  "x_pred (PredictMeanAndCovariance s) =
     (\<lambda>r. \<Sum>i<15. weights (PredictMeanAndCovariance s) i * Xsig_pred s r i)"
proof -
  have "x_pred (PredictMeanAndCovariance s) =
     fold (\<lambda>i x. vadd x (smul (weights (PredictMeanAndCovariance s) i) (col (Xsig_pred s) i)))
       [0..<2 * n_aug + 1] (\<lambda>_. 0)"
    by (simp add: PredictMeanAndCovariance_def Let_def)
  then show ?thesis by (simp only: fold_vadd_smul) (simp add: n_aug_def)
qed

lemma P_pred_PredictMeanAndCovariance:
  "P_pred (PredictMeanAndCovariance s) =
     (\<lambda>r c. \<Sum>i<15. weights (PredictMeanAndCovariance s) i
         * x_diff_normalized (Xsig_pred s) (x_pred (PredictMeanAndCovariance s)) i r
         * x_diff_normalized (Xsig_pred s) (x_pred (PredictMeanAndCovariance s)) i c)"
proof -
  have "P_pred (PredictMeanAndCovariance s) =
     fold (\<lambda>i P. let x_diff = x_diff_normalized (Xsig_pred s) (x_pred (PredictMeanAndCovariance s)) i
               in madd P (outer (weights (PredictMeanAndCovariance s) i) x_diff x_diff))
       [0..<2 * n_aug + 1] (\<lambda>_ _. 0)"
    by (simp add: PredictMeanAndCovariance_def Let_def)
  then show ?thesis by (simp only: Let_def fold_madd_outer) (simp add: n_aug_def)
qed

lemma other_PredictMeanAndCovariance:
  "Xsig_pred (PredictMeanAndCovariance s) = Xsig_pred s"
  "Xsig_aug (PredictMeanAndCovariance s) = Xsig_aug s"
  "x_aug (PredictMeanAndCovariance s) = x_aug s"
  "P_aug (PredictMeanAndCovariance s) = P_aug s"
  "use_laser (PredictMeanAndCovariance s) = use_laser s"
  "use_radar (PredictMeanAndCovariance s) = use_radar s"
  "is_initialized (PredictMeanAndCovariance s) = is_initialized s"
  "previous_timestamp (PredictMeanAndCovariance s) = previous_timestamp s"
  by (simp_all add: PredictMeanAndCovariance_def Let_def)

lemma x_diff_normalized_eq:
  "x_diff_normalized X x i r =
     (if r = 3 then angle_normalization (X 3 i - x 3) else X r i - x r)"
  by (simp add: x_diff_normalized_def Let_def vsub_def col_def)

lemma process_model_zero_dt: "r < 5 \<Longrightarrow> process_model 0 p r = p r"
  by (auto simp: process_model_def less_Suc_eq eval_nat_numeral)

lemma Prediction_eq:
  "Prediction dt s =
     Inr (PredictMeanAndCovariance
       ((GenerateSigmaPoints s)\<lparr>Xsig_pred :=
          (\<lambda>r c. if c < 15 \<and> r < 5
                 then process_model dt (col (Xsig_aug (GenerateSigmaPoints s)) c) r
                 else Xsig_pred (GenerateSigmaPoints s) r c)\<rparr>))"
  by (simp add: Prediction_def PredictSigmaPoints_eq)

lemma Prediction_result:
  assumes "Prediction dt s = Inr s'"
  shows "weights s' i = (if 1 \<le> i \<and> i < 15 then 1 / 6 else if i = 0 then - (4 / 3)
                         else weights s i)"
    and "x_pred s' r = (\<Sum>i<15. weights s' i * Xsig_pred s' r i)"
    and "P_pred s' r c = (\<Sum>i<15. weights s' i
           * x_diff_normalized (Xsig_pred s') (x_pred s') i r
           * x_diff_normalized (Xsig_pred s') (x_pred s') i c)"
proof -
  let ?g = "GenerateSigmaPoints s"
  let ?t = "?g\<lparr>Xsig_pred := (\<lambda>r c. if c < 15 \<and> r < 5
                 then process_model dt (col (Xsig_aug ?g) c) r else Xsig_pred ?g r c)\<rparr>"
  from assms have s': "s' = PredictMeanAndCovariance ?t"
    unfolding Prediction_eq by simp
  have X: "Xsig_pred s' = Xsig_pred ?t"
    unfolding s' by (rule other_PredictMeanAndCovariance)
  have "weights ?g = weights s" by (simp add: GenerateSigmaPoints_def Let_def)
  then show "weights s' i = (if 1 \<le> i \<and> i < 15 then 1 / 6 else if i = 0 then - (4 / 3)
                         else weights s i)"
    unfolding s' weights_PredictMeanAndCovariance by simp
  show "x_pred s' r = (\<Sum>i<15. weights s' i * Xsig_pred s' r i)"
    unfolding X unfolding s' by (subst x_pred_PredictMeanAndCovariance) (rule refl)
  show "P_pred s' r c = (\<Sum>i<15. weights s' i
           * x_diff_normalized (Xsig_pred s') (x_pred s') i r
           * x_diff_normalized (Xsig_pred s') (x_pred s') i c)"
    unfolding X unfolding s' by (subst P_pred_PredictMeanAndCovariance) (rule refl)
qed

lemma mean_of_sigma_points:
  fixes x :: real and L :: "nat \<Rightarrow> real" and w :: "nat \<Rightarrow> real"
  shows "(\<Sum>i<15. (if 1 \<le> i \<and> i < 15 then 1 / 6 else if i = 0 then - (4 / 3) else w i)
            * (if 1 \<le> i \<and> i \<le> 7 then x + q * L (i - 1)
               else if 8 \<le> i \<and> i \<le> 14 then x - q * L (i - 8)
               else if i = 0 then x else 0)) = x"
proof -
  have 1: "(\<Sum>i<15. (if 1 \<le> i \<and> i < 15 then 1 / 6 else if i = 0 then - (4 / 3) else w i)
            * (if 1 \<le> i \<and> i \<le> 7 then x + q * L (i - 1)
               else if 8 \<le> i \<and> i \<le> 14 then x - q * L (i - 8)
               else if i = 0 then x else 0))
      = - (4 / 3) * x + ((\<Sum>j<7. 1 / 6 * (x + q * L j)) + (\<Sum>j<7. 1 / 6 * (x - q * L j)))"
    unfolding sum_15_split add.assoc by (intro arg_cong2 [where f = "(+)"] sum.cong) auto
  have 2: "(\<Sum>j<7. 1 / 6 * (x + q * L j)) + (\<Sum>j<7. 1 / 6 * (x - q * L j))
      = (\<Sum>j<(7::nat). x / 3)"
    unfolding sum.distrib [symmetric] by (rule sum.cong) (simp_all add: field_simps)
  show ?thesis unfolding 1 2 by simp
qed

lemma Prediction_zero_dt:
  "Prediction 0 s =
     Inr (PredictMeanAndCovariance
       ((GenerateSigmaPoints s)\<lparr>Xsig_pred :=
          (\<lambda>r c. if c < 15 \<and> r < 5 then Xsig_aug (GenerateSigmaPoints s) r c
                 else Xsig_pred (GenerateSigmaPoints s) r c)\<rparr>))"
proof -
  have "(\<lambda>r c. if c < 15 \<and> r < 5
                 then process_model 0 (col (Xsig_aug (GenerateSigmaPoints s)) c) r
                 else Xsig_pred (GenerateSigmaPoints s) r c)
      = (\<lambda>r c. if c < 15 \<and> r < 5 then Xsig_aug (GenerateSigmaPoints s) r c
                 else Xsig_pred (GenerateSigmaPoints s) r c)"
    by (auto simp: fun_eq_iff process_model_zero_dt col_def)
  then show ?thesis unfolding Prediction_eq by simp
qed

lemma x_pred_Prediction_zero_dt:
  assumes "Prediction 0 s = Inr s'" and "r < 5"
  shows "x_pred s' r = x_pred s r"
proof -
  let ?g = "GenerateSigmaPoints s"
  let ?L = "llt_matrixL 7 (P_aug ?g)"
  have s': "s' = PredictMeanAndCovariance
       (?g\<lparr>Xsig_pred := (\<lambda>r c. if c < 15 \<and> r < 5 then Xsig_aug ?g r c else Xsig_pred ?g r c)\<rparr>)"
    using assms(1) unfolding Prediction_zero_dt by simp
  have "x_pred s' r =
    (\<Sum>i<15. (if 1 \<le> i \<and> i < 15 then 1 / 6 else if i = 0 then - (4 / 3) else weights ?g i)
       * (if i < 15 \<and> r < 5 then Xsig_aug ?g r i else Xsig_pred ?g r i))"
    unfolding s' x_pred_PredictMeanAndCovariance weights_PredictMeanAndCovariance
    by (simp cong: if_cong)
  also have "\<dots> =
    (\<Sum>i<15. (if 1 \<le> i \<and> i < 15 then 1 / 6 else if i = 0 then - (4 / 3) else weights ?g i)
       * (if 1 \<le> i \<and> i \<le> 7 then x_aug ?g r + sqrt 3 * ?L r (i - 1)
          else if 8 \<le> i \<and> i \<le> 14 then x_aug ?g r - sqrt 3 * ?L r (i - 8)
          else if i = 0 then x_aug ?g r else 0))"
    by (rule sum.cong) (simp_all add: assms(2) Xsig_aug_GenerateSigmaPoints [of s])
  also have "\<dots> = x_aug ?g r" by (rule mean_of_sigma_points)
  also have "\<dots> = x_pred s r" using assms(2) by (simp add: x_aug_GenerateSigmaPoints)
  finally show ?thesis .
qed

lemma sqrt_sum_squares_eq_zero: "sqrt (x * x + y * y) = 0 \<longleftrightarrow> x = 0 \<and> y = 0"
  unfolding real_sqrt_eq_zero_cancel_iff by (rule sum_squares_eq_zero_iff)

lemma set_coeff_rows_0_1_2:
  "set_coeff (set_coeff (set_coeff Z 0 i (f 0)) 1 i (f 1)) 2 i (f 2)
     = (\<lambda>r c. if c = i \<and> r < 3 then f r else Z r c)"
proof -
  have "(if r = 0 then f 0 else if r = 1 then f 1 else f 2) = f r" if "r < 3" for r :: nat
  proof -
    from that have "r = 0 \<or> r = 1 \<or> r = 2" by auto
    then show ?thesis by auto
  qed
  then have "(\<lambda>r c. if c = i \<and> r < 3 then (if r = 0 then f 0 else if r = 1 then f 1 else f 2)
                  else Z r c)
      = (\<lambda>r c. if c = i \<and> r < 3 then f r else Z r c)"
    by (intro ext) simp
  moreover have "set_coeff (set_coeff (set_coeff Z 0 i (f 0)) 1 i (f 1)) 2 i (f 2)
      = (\<lambda>r c. if c = i \<and> r < 3 then (if r = 0 then f 0 else if r = 1 then f 1 else f 2)
                  else Z r c)"
    by (auto simp: set_coeff_def fun_eq_iff)
  ultimately show ?thesis by simp
qed

lemma UpdateRadar_Zsig_body_eq:
  "UpdateRadar_Zsig_body X i Z =
     (if X 0 i = 0 \<and> X 1 i = 0 then Inl (DivisionByZero NaN)
      else Inr (\<lambda>r c. if c = i \<and> r < 3 then measurement_model (col X i) r else Z r c))"
proof (cases "X 0 i = 0 \<and> X 1 i = 0")
  case True
  then show ?thesis by (simp add: UpdateRadar_Zsig_body_def Let_def fdiv_def)
next
  case False
  then have n: "sqrt (X 0 i * X 0 i + X 1 i * X 1 i) \<noteq> 0"
    by (simp only: sqrt_sum_squares_eq_zero) simp
  have m: "sqrt (X 0 i * X 0 i + X 1 i * X 1 i) = measurement_model (col X i) 0"
    "atan2 (X 1 i) (X 0 i) = measurement_model (col X i) 1"
    "(X 0 i * (cos (X 3 i) * X 2 i) + X 1 i * (sin (X 3 i) * X 2 i))
       / sqrt (X 0 i * X 0 i + X 1 i * X 1 i) = measurement_model (col X i) 2"
    by (simp_all add: measurement_model_def col_def)
  have f: "fdiv (X 0 i * (cos (X 3 i) * X 2 i) + X 1 i * (sin (X 3 i) * X 2 i))
          (sqrt (X 0 i * X 0 i + X 1 i * X 1 i))
      = Inr (measurement_model (col X i) 2)"
    unfolding fdiv_def m(3) [symmetric] by (simp only: n if_False)
  have "UpdateRadar_Zsig_body X i Z =
      Inr (set_coeff (set_coeff (set_coeff Z 0 i (measurement_model (col X i) 0))
             1 i (measurement_model (col X i) 1)) 2 i (measurement_model (col X i) 2))"
    unfolding UpdateRadar_Zsig_body_def Let_def m(1,2) f [unfolded m(1)] and_then_Inr ..
  then show ?thesis
    unfolding set_coeff_rows_0_1_2 using False by (simp only: if_False)
qed

lemma UpdateRadar_Zsig_body_fault:
  "UpdateRadar_Zsig_body X j Z = Inl e \<Longrightarrow> e = DivisionByZero NaN \<and> X 0 j = 0 \<and> X 1 j = 0"
  unfolding UpdateRadar_Zsig_body_eq by (simp split: if_splits)

lemma UpdateRadar_Zsig_body_zero_range:
  "X 0 i = 0 \<Longrightarrow> X 1 i = 0 \<Longrightarrow> UpdateRadar_Zsig_body X i Z = Inl (DivisionByZero NaN)"
  unfolding UpdateRadar_Zsig_body_eq by simp

lemma UpdateRadar_Zsig_loop:
  "(\<forall>j<n. X 0 j \<noteq> 0 \<or> X 1 j \<noteq> 0) \<Longrightarrow>
   for_loop [0..<n] (UpdateRadar_Zsig_body X) Z =
     Inr (\<lambda>r c. if c < n \<and> r < 3 then measurement_model (col X c) r else Z r c)"
proof (induction n)
  case 0
  show ?case by simp
next
  case (Suc n)
  let ?Z = "\<lambda>r c. if c < n \<and> r < 3 then measurement_model (col X c) r else Z r c"
  have IH: "for_loop [0..<n] (UpdateRadar_Zsig_body X) Z = Inr ?Z"
    using Suc by simp
  have n: "\<not> (X 0 n = 0 \<and> X 1 n = 0)" using Suc.prems by auto
  have "for_loop [0..<Suc n] (UpdateRadar_Zsig_body X) Z
      = and_then (for_loop [0..<n] (UpdateRadar_Zsig_body X) Z)
          (for_loop [n] (UpdateRadar_Zsig_body X))"
    by (simp only: upt_Suc_append for_loop_append le0 if_True)
  also have "\<dots> = for_loop [n] (UpdateRadar_Zsig_body X) ?Z"
    by (simp only: IH and_then_Inr)
  also have "\<dots> = UpdateRadar_Zsig_body X n ?Z"
    by (simp only: for_loop.simps UpdateRadar_Zsig_body_eq n if_False sum.case)
  also have "\<dots> = Inr (\<lambda>r c. if c < Suc n \<and> r < 3 then measurement_model (col X c) r
                          else Z r c)"
    unfolding UpdateRadar_Zsig_body_eq using n
    by (auto simp: fun_eq_iff less_Suc_eq)
  finally show ?case .
qed

lemma UpdateRadar_zero_range:
  assumes "i < 15" "Xsig_pred s 0 i = 0" "Xsig_pred s 1 i = 0"
  shows "UpdateRadar s m = Inl (DivisionByZero NaN)"
proof -
  have "i \<in> set [0..<2 * n_aug + 1]" using assms(1) by (simp add: n_aug_def)
  then have "for_loop [0..<2 * n_aug + 1] (UpdateRadar_Zsig_body (Xsig_pred s))
      (MatrixXd 3 (2 * n_aug + 1)) = Inl (DivisionByZero NaN)"
    using assms(2,3) by (intro for_loop_fault [where i = i])
      (simp_all add: UpdateRadar_Zsig_body_zero_range UpdateRadar_Zsig_body_fault)
  then show ?thesis by (simp add: UpdateRadar_def Let_def)
qed

lemma UpdateRadar_fault_origin:
  assumes "UpdateRadar s m = Inl (DivisionByZero w)"
  shows "w = NaN \<and> (\<exists>j<15. Xsig_pred s 0 j = 0 \<and> Xsig_pred s 1 j = 0)"
proof (cases "\<exists>j<15. Xsig_pred s 0 j = 0 \<and> Xsig_pred s 1 j = 0")
  case True
  then obtain j where "j < 15" "Xsig_pred s 0 j = 0" "Xsig_pred s 1 j = 0" by blast
  from UpdateRadar_zero_range [OF this] assms have "w = NaN" by simp
  with True show ?thesis by simp
next
  case False
  then have "\<forall>j<2 * n_aug + 1. Xsig_pred s 0 j \<noteq> 0 \<or> Xsig_pred s 1 j \<noteq> 0"
    by (simp add: n_aug_def)
  from UpdateRadar_Zsig_loop [OF this]
  have "UpdateRadar s m \<noteq> Inl (DivisionByZero w)"
    by (simp add: UpdateRadar_def Let_def inverse3_def)
  with assms show ?thesis by simp
qed

lemma comma_m_2x2:
  "comma_m M 2 [a, b, c, d] 0 0 = a" "comma_m M 2 [a, b, c, d] 0 (Suc 0) = b"
  "comma_m M 2 [a, b, c, d] (Suc 0) 0 = c" "comma_m M 2 [a, b, c, d] (Suc 0) (Suc 0) = d"
  by (simp_all add: comma_m_def)

lemma UpdateLidar_x_pred:
  assumes "(P_pred s 0 0 + 0.0225) * (P_pred s 1 1 + 0.0225) - P_pred s 0 1 * P_pred s 1 0 \<noteq> 0"
  shows "\<exists>s'. UpdateLidar s m = Inr s'
     \<and> x_pred s' r = x_pred s r
         + ((P_pred s r 0 * (P_pred s 1 1 + 0.0225) - P_pred s r 1 * P_pred s 1 0)
              * (raw_measurements m 0 - x_pred s 0)
            + (P_pred s r 1 * (P_pred s 0 0 + 0.0225) - P_pred s r 0 * P_pred s 0 1)
              * (raw_measurements m 1 - x_pred s 1))
           / ((P_pred s 0 0 + 0.0225) * (P_pred s 1 1 + 0.0225) - P_pred s 0 1 * P_pred s 1 0)
     \<and> use_laser s' = use_laser s \<and> use_radar s' = use_radar s"
proof -
  define H where "H = comma_m (MatrixXd 2 5) 5 [1, 0, 0, 0, 0, 0, 1, 0, 0, 0]"
  define S where "S = madd (mmul 5 (mmul 5 H (P_pred s)) (transpose_m H))
      (comma_m (MatrixXd 2 2) 2 [0.0225, 0, 0, 0.0225])"
  define D where "D = (P_pred s 0 0 + 0.0225) * (P_pred s 1 1 + 0.0225) - P_pred s 0 1 * P_pred s 1 0"
  define Si where "Si = (\<lambda>r c. comma_m (MatrixXd 2 2) 2 [S 1 1, - S 0 1, - S 1 0, S 0 0] r c / det2 S)"
  define K where "K = mmul 2 (mmul 5 (P_pred s) (transpose_m H)) Si"
  define y where "y = vsub (raw_measurements m) (mvmul 5 H (x_pred s))"
  define s' where "s' = s\<lparr>x_pred := vadd (x_pred s) (mvmul 2 K y),
      P_pred := mmul 5 (msub identity_m (mmul 2 K H)) (P_pred s)\<rparr>"
  have S: "S 0 0 = P_pred s 0 0 + 0.0225" "S 0 1 = P_pred s 0 1"
    "S 1 0 = P_pred s 1 0" "S 1 1 = P_pred s 1 1 + 0.0225"
    by (simp_all add: S_def H_def madd_def mmul_def transpose_m_def sum_expand comma_m_def)
  have det: "det2 S = D" unfolding det2_def S D_def ..
  have D: "D \<noteq> 0" using assms unfolding D_def .
  have inv: "inverse2 S = Inr Si"
    unfolding inverse2_def Si_def using D det by simp
  have U: "UpdateLidar s m = Inr s'"
    unfolding UpdateLidar_def Let_def H_def [symmetric] S_def [symmetric] inv and_then_Inr
      K_def [symmetric] y_def [symmetric] s'_def ..
  have Si: "Si 0 0 = S 1 1 / D" "Si 0 1 = - S 0 1 / D" "Si 1 0 = - S 1 0 / D" "Si 1 1 = S 0 0 / D"
    unfolding Si_def det by (simp_all add: comma_m_def)
  have PHt: "mmul 5 (P_pred s) (transpose_m H) r 0 = P_pred s r 0"
    "mmul 5 (P_pred s) (transpose_m H) r 1 = P_pred s r 1"
    by (simp_all add: H_def mmul_def transpose_m_def sum_expand comma_m_def)
  have K: "K r 0 = P_pred s r 0 * Si 0 0 + P_pred s r 1 * Si 1 0"
    "K r 1 = P_pred s r 0 * Si 0 1 + P_pred s r 1 * Si 1 1"
    unfolding K_def mmul_def [of 2] sum_expand PHt by simp_all
  have y: "y 0 = raw_measurements m 0 - x_pred s 0" "y 1 = raw_measurements m 1 - x_pred s 1"
    by (simp_all add: y_def H_def vsub_def mvmul_def sum_expand comma_m_def)
  have "x_pred s' r = x_pred s r + (K r 0 * y 0 + K r 1 * y 1)"
    unfolding s'_def by (simp add: vadd_def mvmul_def sum_expand)
  also have "K r 0 * y 0 + K r 1 * y 1 =
      ((P_pred s r 0 * (P_pred s 1 1 + 0.0225) - P_pred s r 1 * P_pred s 1 0) * y 0
       + (P_pred s r 1 * (P_pred s 0 0 + 0.0225) - P_pred s r 0 * P_pred s 0 1) * y 1) / D"
    unfolding K Si S using D by (simp add: field_simps)
  finally have "x_pred s' r = x_pred s r
         + ((P_pred s r 0 * (P_pred s 1 1 + 0.0225) - P_pred s r 1 * P_pred s 1 0)
              * (raw_measurements m 0 - x_pred s 0)
            + (P_pred s r 1 * (P_pred s 0 0 + 0.0225) - P_pred s r 0 * P_pred s 0 1)
              * (raw_measurements m 1 - x_pred s 1)) / D"
    unfolding y .
  moreover have "use_laser s' = use_laser s" "use_radar s' = use_radar s"
    by (simp_all add: s'_def)
  ultimately show ?thesis using U unfolding D_def by blast
qed

subsection \<open>The toggles are never read\<close>

text \<open>
  Setting \<^verbatim>\<open>use_laser_\<close> and \<^verbatim>\<open>use_radar_\<close> to any values changes nothing in what
  \<^verbatim>\<open>ProcessMeasurement\<close> computes, but for the two toggles themselves.
\<close>

lemma GenerateSigmaPoints_toggles:
  "GenerateSigmaPoints (s\<lparr>use_laser := a, use_radar := b\<rparr>)
     = (GenerateSigmaPoints s)\<lparr>use_laser := a, use_radar := b\<rparr>"
  by (simp add: GenerateSigmaPoints_def Let_def)

lemma PredictMeanAndCovariance_toggles:
  "PredictMeanAndCovariance (s\<lparr>use_laser := a, use_radar := b\<rparr>)
     = (PredictMeanAndCovariance s)\<lparr>use_laser := a, use_radar := b\<rparr>"
  by (simp add: PredictMeanAndCovariance_def Let_def)

lemma Prediction_toggles:
  "Prediction dt (s\<lparr>use_laser := a, use_radar := b\<rparr>)
     = and_then (Prediction dt s) (\<lambda>s'. Inr (s'\<lparr>use_laser := a, use_radar := b\<rparr>))"
proof -
  have e: "g\<lparr>use_laser := a, use_radar := b, Xsig_pred := F\<rparr>
      = (g\<lparr>Xsig_pred := F\<rparr>)\<lparr>use_laser := a, use_radar := b\<rparr>" for g :: ukf and F
    by simp
  show ?thesis
    unfolding Prediction_eq GenerateSigmaPoints_toggles
    by (simp add: e PredictMeanAndCovariance_toggles cong: if_cong del: ukf.update_convs)
qed

lemma UpdateLidar_toggles:
  "UpdateLidar (s\<lparr>use_laser := a, use_radar := b\<rparr>) m
     = and_then (UpdateLidar s m) (\<lambda>s'. Inr (s'\<lparr>use_laser := a, use_radar := b\<rparr>))"
  by (cases "inverse2 (madd (mmul 5 (mmul 5 (comma_m (MatrixXd 2 5) 5 [1, 0, 0, 0, 0, 0, 1, 0, 0, 0])
        (P_pred s)) (transpose_m (comma_m (MatrixXd 2 5) 5 [1, 0, 0, 0, 0, 0, 1, 0, 0, 0])))
        (comma_m (MatrixXd 2 2) 2 [0.0225, 0, 0, 0.0225]))")
     (simp_all add: UpdateLidar_def Let_def)

lemma UpdateRadar_toggles:
  "UpdateRadar (s\<lparr>use_laser := a, use_radar := b\<rparr>) m
     = and_then (UpdateRadar s m) (\<lambda>s'. Inr (s'\<lparr>use_laser := a, use_radar := b\<rparr>))"
  by (simp add: UpdateRadar_def Let_def and_then_def split: sum.splits)

lemma ProcessMeasurement_toggles:
  "ProcessMeasurement (s\<lparr>use_laser := a, use_radar := b\<rparr>) m
     = and_then (ProcessMeasurement s m) (\<lambda>s'. Inr (s'\<lparr>use_laser := a, use_radar := b\<rparr>))"
proof (cases "is_initialized s")
  case False
  then show ?thesis
    by (cases "sensor_type m") (simp_all add: ProcessMeasurement_def Let_def)
next
  case True
  then show ?thesis
    by (cases "sensor_type m")
       (auto simp: ProcessMeasurement_def Let_def Prediction_toggles UpdateLidar_toggles
          UpdateRadar_toggles and_then_def split: sum.splits)
qed

subsection \<open>The concrete run, evaluated\<close>

text \<open>
  The first call stores the position; the second call, one second later, predicts from
  the covariance the memory held and corrects with the lidar measurement \<open>(100, 0)\<close>.
  The Cholesky factor, the sigma points and the entries of the predicted covariance that
  the lidar gain needs are computed exactly.
\<close>

lemma example_filter_True: "example_filter True = UKF raw_example"
  by (simp add: example_filter_def UKF_def)

lemma first_call_example:
  "ProcessMeasurement (example_filter b) (laser_measurement 0 0 0) = Inr (initialized_example b)"
  by (auto simp: ProcessMeasurement_def UKF_def raw_example_def laser_measurement_def
      initialized_example_def example_filter_def comma_v_def fun_eq_iff less_Suc_eq
      eval_nat_numeral)

lemma P_aug_example: "P_aug (GenerateSigmaPoints (initialized_example b)) = Pa_example"
  by (simp add: P_aug_GenerateSigmaPoints Pa_example_def initialized_example_def example_filter_def UKF_def
      raw_example_def cong: if_cong)

lemma sqrt_361_25: "sqrt (361 / 25) = 19 / 5"
  by (rule real_sqrt_unique) (simp_all add: power2_eq_square)

lemma sqrt_9_100: "sqrt (9 / 100) = 3 / 10"
  by (rule real_sqrt_unique) (simp_all add: power2_eq_square)

lemma Pa_example_entries:
  "Pa_example r c = (if r < 5 \<and> c < 5 then
              (if r = c then (if r = 3 then 2 else 1)
               else if (r = 3 \<and> c = 0) \<or> (r = 0 \<and> c = 3) then 1 else 0)
            else if r = 5 \<and> c = 5 then 361 / 25
            else if r = 6 \<and> c = 6 then 9 / 100 else 0)"
  by (simp add: Pa_example_def P_example_def std_a_def std_yawdd_def)

lemma llt_column_0: "llt_column 7 0 Pa_example = Pa_example"
  by (auto simp: llt_column_def Pa_example_entries fun_eq_iff)

lemma llt_column_1: "llt_column 7 1 Pa_example = Pa_example"
  by (auto simp: llt_column_def Pa_example_entries fun_eq_iff)

lemma llt_column_2: "llt_column 7 2 Pa_example = Pa_example"
  by (auto simp: llt_column_def Pa_example_entries fun_eq_iff)

lemma llt_column_3: "llt_column 7 3 Pa_example = set_coeff Pa_example 3 3 1"
  by (auto simp: llt_column_def Pa_example_entries set_coeff_def fun_eq_iff sum_expand Let_def)

lemma llt_column_4:
  "llt_column 7 4 (set_coeff Pa_example 3 3 1) = set_coeff Pa_example 3 3 1"
  by (auto simp: llt_column_def Pa_example_entries set_coeff_def fun_eq_iff sum_expand Let_def)

lemma llt_column_5:
  "llt_column 7 5 (set_coeff Pa_example 3 3 1)
     = set_coeff (set_coeff Pa_example 3 3 1) 5 5 (19 / 5)"
  by (auto simp: llt_column_def Pa_example_entries set_coeff_def fun_eq_iff sum_expand Let_def sqrt_361_25)

lemma llt_column_6:
  "llt_column 7 6 (set_coeff (set_coeff Pa_example 3 3 1) 5 5 (19 / 5))
     = set_coeff (set_coeff (set_coeff Pa_example 3 3 1) 5 5 (19 / 5)) 6 6 (3 / 10)"
  by (auto simp: llt_column_def Pa_example_entries set_coeff_def fun_eq_iff sum_expand Let_def sqrt_9_100)

lemma upt_0_7: "[0..<7] = [0, 1, 2, 3, 4, 5, 6]"
  by (simp add: upt_rec)

lemma llt_unblocked_example:
  "llt_unblocked 7 [0..<7] Pa_example
     = set_coeff (set_coeff (set_coeff Pa_example 3 3 1) 5 5 (19 / 5)) 6 6 (3 / 10)"
proof -
  have p: "\<not> Pa_example 0 0 - (\<Sum>j<0. Pa_example 0 j * Pa_example 0 j) \<le> 0"
    "\<not> Pa_example 1 1 - (\<Sum>j<1. Pa_example 1 j * Pa_example 1 j) \<le> 0"
    "\<not> Pa_example 2 2 - (\<Sum>j<2. Pa_example 2 j * Pa_example 2 j) \<le> 0"
    "\<not> Pa_example 3 3 - (\<Sum>j<3. Pa_example 3 j * Pa_example 3 j) \<le> 0"
    by (simp_all add: Pa_example_entries sum_expand)
  have q: "\<not> set_coeff Pa_example 3 3 1 4 4
          - (\<Sum>j<4. set_coeff Pa_example 3 3 1 4 j * set_coeff Pa_example 3 3 1 4 j) \<le> 0"
    "\<not> set_coeff Pa_example 3 3 1 5 5
          - (\<Sum>j<5. set_coeff Pa_example 3 3 1 5 j * set_coeff Pa_example 3 3 1 5 j) \<le> 0"
    "\<not> set_coeff (set_coeff Pa_example 3 3 1) 5 5 (19 / 5) 6 6
          - (\<Sum>j<6. set_coeff (set_coeff Pa_example 3 3 1) 5 5 (19 / 5) 6 j
               * set_coeff (set_coeff Pa_example 3 3 1) 5 5 (19 / 5) 6 j) \<le> 0"
    by (simp_all add: Pa_example_entries set_coeff_def sum_expand)
  show ?thesis
    by (simp only: upt_0_7 llt_unblocked.simps p q if_False llt_column_0 llt_column_1
        llt_column_2 llt_column_3 llt_column_4 llt_column_5 llt_column_6)
qed

lemma llt_matrixL_example: "llt_matrixL 7 Pa_example = L_example"
  unfolding llt_matrixL_def llt_unblocked_example
  by (auto simp: fun_eq_iff set_coeff_def Pa_example_entries L_example_def)

lemma sqrt3_bounds: "1 < sqrt 3" "sqrt 3 < 2"
proof -
  show "1 < sqrt 3" by simp
  have "sqrt 3 < sqrt 4" unfolding real_sqrt_less_iff by simp
  then show "sqrt 3 < 2" by simp
qed

lemma Xsig_aug_example:
  "Xsig_aug (GenerateSigmaPoints (initialized_example b)) =
     (\<lambda>r c. if 1 \<le> c \<and> c \<le> 7 then sqrt 3 * L_example r (c - 1)
            else if 8 \<le> c \<and> c \<le> 14 then - (sqrt 3 * L_example r (c - 8))
            else 0)"
proof -
  have x: "x_aug (GenerateSigmaPoints (initialized_example b)) = (\<lambda>_. 0)"
    by (simp add: x_aug_GenerateSigmaPoints initialized_example_def example_filter_def cong: if_cong)
  show ?thesis
    unfolding Xsig_aug_GenerateSigmaPoints [of "initialized_example b"] x P_aug_example
      llt_matrixL_example
    by (simp add: fun_eq_iff cong: if_cong)
qed

lemma less_15_cases:
  "c < 15 \<Longrightarrow> c = 0 \<or> c = 1 \<or> c = 2 \<or> c = 3 \<or> c = 4 \<or> c = 5 \<or> c = 6 \<or> c = 7 \<or> c = 8
     \<or> c = 9 \<or> c = 10 \<or> c = 11 \<or> c = 12 \<or> c = 13 \<or> c = (14::nat)"
  by arith

lemma yawd_guard_example: "1 < sqrt 3 * 1000"
  using sqrt3_bounds(1) by linarith

lemma Xsig_pred_example:
  assumes "Prediction 1 (initialized_example b) = Inr s'"
  shows "Xsig_pred s' 0 = (\<lambda>c. if c = 1 \<or> c = 3 then sqrt 3 else if c = 6 then 19 / 10 * sqrt 3
            else if c = 8 \<or> c = 10 then - sqrt 3 else if c = 13 then - (19 / 10 * sqrt 3)
            else 0)"
    and "Xsig_pred s' 1 = (\<lambda>c. if c = 2 then sqrt 3 else if c = 9 then - sqrt 3 else 0)"
    and "Xsig_pred s' 3 = (\<lambda>c. if c = 1 \<or> c = 4 \<or> c = 5 then sqrt 3
            else if c = 7 then 3 / 20 * sqrt 3
            else if c = 8 \<or> c = 11 \<or> c = 12 then - sqrt 3
            else if c = 14 then - (3 / 20 * sqrt 3) else 0)"
proof -
  let ?g = "GenerateSigmaPoints (initialized_example b)"
  have X: "Xsig_pred s' = (\<lambda>r c. if c < 15 \<and> r < 5 then process_model 1 (col (Xsig_aug ?g) c) r
                 else 0)"
  proof -
    from assms have s': "s' = PredictMeanAndCovariance
       (?g\<lparr>Xsig_pred := (\<lambda>r c. if c < 15 \<and> r < 5
                 then process_model 1 (col (Xsig_aug ?g) c) r else Xsig_pred ?g r c)\<rparr>)"
      unfolding Prediction_eq by simp
    have z: "Xsig_pred ?g = (\<lambda>_ _. 0)"
      by (simp add: GenerateSigmaPoints_def Let_def initialized_example_def example_filter_def UKF_def
          raw_example_def)
    show ?thesis by (simp add: s' other_PredictMeanAndCovariance z cong: if_cong)
  qed
  have c: "col (Xsig_aug ?g) c = (\<lambda>r. if 1 \<le> c \<and> c \<le> 7 then sqrt 3 * L_example r (c - 1)
            else if 8 \<le> c \<and> c \<le> 14 then - (sqrt 3 * L_example r (c - 8))
            else 0)" for c
    unfolding Xsig_aug_example col_def ..
  show "Xsig_pred s' 0 = (\<lambda>c. if c = 1 \<or> c = 3 then sqrt 3 else if c = 6 then 19 / 10 * sqrt 3
            else if c = 8 \<or> c = 10 then - sqrt 3 else if c = 13 then - (19 / 10 * sqrt 3)
            else 0)"
  proof
    fix k :: nat
    show "Xsig_pred s' 0 k = (if k = 1 \<or> k = 3 then sqrt 3 else if k = 6 then 19 / 10 * sqrt 3
            else if k = 8 \<or> k = 10 then - sqrt 3 else if k = 13 then - (19 / 10 * sqrt 3)
            else 0)"
    proof (cases "k < 15")
      case True
      from less_15_cases [OF this] show ?thesis
        by (elim disjE) (simp_all add: X c process_model_def L_example_def yawd_guard_example)
    next
      case False
      then show ?thesis by (simp add: X)
    qed
  qed
  show "Xsig_pred s' 1 = (\<lambda>c. if c = 2 then sqrt 3 else if c = 9 then - sqrt 3 else 0)"
  proof
    fix k :: nat
    show "Xsig_pred s' 1 k = (if k = 2 then sqrt 3 else if k = 9 then - sqrt 3 else 0)"
    proof (cases "k < 15")
      case True
      from less_15_cases [OF this] show ?thesis
        by (elim disjE) (simp_all add: X c process_model_def L_example_def yawd_guard_example)
    next
      case False
      then show ?thesis by (simp add: X)
    qed
  qed
  show "Xsig_pred s' 3 = (\<lambda>c. if c = 1 \<or> c = 4 \<or> c = 5 then sqrt 3
            else if c = 7 then 3 / 20 * sqrt 3
            else if c = 8 \<or> c = 11 \<or> c = 12 then - sqrt 3
            else if c = 14 then - (3 / 20 * sqrt 3) else 0)"
  proof
    fix k :: nat
    show "Xsig_pred s' 3 k = (if k = 1 \<or> k = 4 \<or> k = 5 then sqrt 3
            else if k = 7 then 3 / 20 * sqrt 3
            else if k = 8 \<or> k = 11 \<or> k = 12 then - sqrt 3
            else if k = 14 then - (3 / 20 * sqrt 3) else 0)"
    proof (cases "k < 15")
      case True
      from less_15_cases [OF this] show ?thesis
        by (elim disjE) (simp_all add: X c process_model_def L_example_def yawd_guard_example)
    next
      case False
      then show ?thesis by (simp add: X)
    qed
  qed
qed

lemma angle_normalization_example:
  "angle_normalization 0 = 0"
  "angle_normalization (sqrt 3) = sqrt 3"
  "angle_normalization (- sqrt 3) = - sqrt 3"
  "angle_normalization (sqrt 3 * 3 / 20) = sqrt 3 * 3 / 20"
  "angle_normalization (- (sqrt 3 * 3 / 20)) = - (sqrt 3 * 3 / 20)"
  "angle_normalization (3 * sqrt 3 / 20) = 3 * sqrt 3 / 20"
  "angle_normalization (- (3 * sqrt 3 / 20)) = - (3 * sqrt 3 / 20)"
proof -
  have b: "0 \<le> sqrt 3" "sqrt 3 \<le> 2" using sqrt3_bounds by simp_all
  show "angle_normalization 0 = 0" by (rule angle_normalization_small) simp
  show "angle_normalization (sqrt 3) = sqrt 3"
    by (rule angle_normalization_small) (use b in linarith)
  show "angle_normalization (- sqrt 3) = - sqrt 3"
    by (rule angle_normalization_small) (use b in linarith)
  show "angle_normalization (sqrt 3 * 3 / 20) = sqrt 3 * 3 / 20"
    by (rule angle_normalization_small) (use b in linarith)
  show "angle_normalization (- (sqrt 3 * 3 / 20)) = - (sqrt 3 * 3 / 20)"
    by (rule angle_normalization_small) (use b in linarith)
  show "angle_normalization (3 * sqrt 3 / 20) = 3 * sqrt 3 / 20"
    by (rule angle_normalization_small) (use b in linarith)
  show "angle_normalization (- (3 * sqrt 3 / 20)) = - (3 * sqrt 3 / 20)"
    by (rule angle_normalization_small) (use b in linarith)
qed

lemma predicted_example:
  assumes "Prediction 1 (initialized_example b) = Inr s'"
  shows "x_pred s' 0 = 0" "x_pred s' 1 = 0" "x_pred s' 3 = 0"
    and "P_pred s' 0 0 = 561 / 100" "P_pred s' 0 1 = 0" "P_pred s' 1 0 = 0" "P_pred s' 1 1 = 1"
    and "P_pred s' 3 0 = 1" "P_pred s' 3 1 = 0"
proof -
  note X = Xsig_pred_example [OF assms, unfolded One_nat_def]
  note R = Prediction_result [OF assms]
  show x0: "x_pred s' 0 = 0" by (simp add: R(2) sum_expand R(1) X)
  show x1: "x_pred s' 1 = 0" by (simp add: R(2) sum_expand R(1) X)
  show x3: "x_pred s' 3 = 0" by (simp add: R(2) sum_expand R(1) X)
  note x1' = x1 [unfolded One_nat_def]
  show "P_pred s' 0 0 = 561 / 100"
    by (simp add: R(3) sum_expand R(1) X x_diff_normalized_eq x0 x1 x1' x3)
  show "P_pred s' 0 1 = 0"
    by (simp add: R(3) sum_expand R(1) X x_diff_normalized_eq x0 x1 x1' x3)
  show "P_pred s' 1 0 = 0"
    by (simp add: R(3) sum_expand R(1) X x_diff_normalized_eq x0 x1 x1' x3)
  show "P_pred s' 1 1 = 1"
    by (simp add: R(3) sum_expand R(1) X x_diff_normalized_eq x0 x1 x1' x3)
  show "P_pred s' 3 0 = 1"
    by (simp add: R(3) sum_expand R(1) X x_diff_normalized_eq x0 x1 x1' x3
        angle_normalization_example)
  show "P_pred s' 3 1 = 0"
    by (simp add: R(3) sum_expand R(1) X x_diff_normalized_eq x0 x1 x1' x3
        angle_normalization_example)
qed

lemma second_call_example:
  "\<exists>s2. ProcessMeasurement (initialized_example b) (laser_measurement 1000000 100 0) = Inr s2
     \<and> x_pred s2 0 = 74800 / 751 \<and> x_pred s2 3 = 40000 / 2253
     \<and> use_laser s2 = b"
proof -
  obtain s' where p: "Prediction 1 (initialized_example b) = Inr s'"
    unfolding Prediction_eq by blast
  note e = predicted_example [OF p]
  have l: "use_laser s' = b"
    using p unfolding Prediction_eq
    by (auto simp: other_PredictMeanAndCovariance GenerateSigmaPoints_def Let_def
        initialized_example_def example_filter_def)
  have d: "(P_pred s' 0 0 + 0.0225) * (P_pred s' 1 1 + 0.0225) - P_pred s' 0 1 * P_pred s' 1 0 \<noteq> 0"
    unfolding e by simp
  from UpdateLidar_x_pred [OF d, of "laser_measurement 1000000 100 0" 0]
  obtain u where u: "UpdateLidar s' (laser_measurement 1000000 100 0) = Inr u"
    "x_pred u 0 = 74800 / 751" "use_laser u = use_laser s'"
    unfolding e by (auto simp: laser_measurement_def comma_v_def)
  from UpdateLidar_x_pred [OF d, of "laser_measurement 1000000 100 0" 3]
  have u3: "x_pred u 3 = 40000 / 2253"
    unfolding e u by (auto simp: laser_measurement_def comma_v_def)
  have "ProcessMeasurement (initialized_example b) (laser_measurement 1000000 100 0)
      = Inr (u\<lparr>previous_timestamp := 1000000\<rparr>)"
    by (simp add: ProcessMeasurement_def initialized_example_def [of b, THEN arg_cong, of is_initialized]
        initialized_example_def [of b, THEN arg_cong, of previous_timestamp] p
        u(1) [unfolded laser_measurement_def] laser_measurement_def)
  then show ?thesis using u u3 l by simp
qed

lemma process_all_example:
  "x_pred_of (process_all (example_filter b) [laser_measurement 0 0 0]) r = Inr 0"
  "x_pred_of (process_all (example_filter b)
     [laser_measurement 0 0 0, laser_measurement 1000000 100 0]) 0 = Inr (74800 / 751)"
  "x_pred_of (process_all (example_filter b)
     [laser_measurement 0 0 0, laser_measurement 1000000 100 0]) 3 = Inr (40000 / 2253)"
proof -
  show "x_pred_of (process_all (example_filter b) [laser_measurement 0 0 0]) r = Inr 0"
    by (simp add: first_call_example x_pred_of_def initialized_example_def)
  obtain s2 where s2:
    "ProcessMeasurement (initialized_example b) (laser_measurement 1000000 100 0) = Inr s2"
    "x_pred s2 0 = 74800 / 751" "x_pred s2 3 = 40000 / 2253"
    using second_call_example [of b] by blast
  show "x_pred_of (process_all (example_filter b)
     [laser_measurement 0 0 0, laser_measurement 1000000 100 0]) 0 = Inr (74800 / 751)"
    by (simp add: first_call_example s2 x_pred_of_def)
  show "x_pred_of (process_all (example_filter b)
     [laser_measurement 0 0 0, laser_measurement 1000000 100 0]) 3 = Inr (40000 / 2253)"
    by (simp add: first_call_example s2 x_pred_of_def)
qed

section \<open>The claims\<close>

text \<open>
  Claim C1 (the code departs from it). The comments of the constructor say that lidar
  measurements are ignored, except during initialisation, when \<^verbatim>\<open>use_laser_\<close> is false.
  No function reads the toggle. On the filter \<open>example_filter False\<close>, whose lidar toggle
  is off, the warm-up call stores position 0, and the second call, a lidar measurement
  \<open>(100, 0)\<close> one second later, is predicted and corrected with: the position component
  \<open>x(0)\<close> of the state vector moves from 0 to \<open>74800/751\<close>.
\<close>

theorem disabled_lidar_measurement_changes_state:
  "use_laser (example_filter False) = False
   \<and> x_pred_of (process_all (example_filter False) [laser_measurement 0 0 0]) 0 = Inr 0
   \<and> x_pred_of (process_all (example_filter False)
        [laser_measurement 0 0 0, laser_measurement 1000000 100 0]) 0 = Inr (74800 / 751)"
  using process_all_example [of False] by (simp add: example_filter_def)

text \<open>
  Claim C2 as the spec states it fails: nothing wraps the heading component \<open>x(3)\<close> of
  the state vector. After the warm-up call and one lidar measurement, on the constructed
  filter \<open>UKF raw_example\<close>, the heading is \<open>40000/2253\<close>, about 17.75, which is above
  \<open>\<pi>\<close>.
\<close>

theorem heading_leaves_interval:
  "x_pred_of (process_all (UKF raw_example)
     [laser_measurement 0 0 0, laser_measurement 1000000 100 0]) 3 = Inr (40000 / 2253)
   \<and> \<not> (- pi < 40000 / 2253 \<and> 40000 / 2253 \<le> pi)"
proof -
  have "pi < 40000 / 2253" using pi_less_4 by simp
  then show ?thesis
    using process_all_example(3) [of True] by (simp add: example_filter_True)
qed

text \<open>
  Claim C2, as the code has it. \<^verbatim>\<open>PredictMeanAndCovariance\<close> sets the heading \<open>x(3)\<close> to
  the weighted sum of the headings of the predicted sigma points, with no wrapping. What is
  wrapped, into the closed interval \<open>[-\<pi>, \<pi>]\<close>, is the heading component of every
  residual \<^verbatim>\<open>Xsig_pred_.col(i) - x_pred_\<close>, and the covariance is accumulated from these
  normalised residuals.
\<close>

theorem heading_residual_wrapped:
  "x_pred (PredictMeanAndCovariance s) 3 =
     (\<Sum>i<15. weights (PredictMeanAndCovariance s) i * Xsig_pred s 3 i)
   \<and> - pi \<le> x_diff_normalized (Xsig_pred s) (x_pred (PredictMeanAndCovariance s)) i 3
   \<and> x_diff_normalized (Xsig_pred s) (x_pred (PredictMeanAndCovariance s)) i 3 \<le> pi
   \<and> P_pred (PredictMeanAndCovariance s) r c =
       (\<Sum>i<15. weights (PredictMeanAndCovariance s) i
          * x_diff_normalized (Xsig_pred s) (x_pred (PredictMeanAndCovariance s)) i r
          * x_diff_normalized (Xsig_pred s) (x_pred (PredictMeanAndCovariance s)) i c)"
  using angle_normalization_range
  by (simp add: x_pred_PredictMeanAndCovariance [of s, THEN fun_cong]
      P_pred_PredictMeanAndCovariance [of s, THEN fun_cong, THEN fun_cong]
      x_diff_normalized_eq M_PI_def)

text \<open>
  Claim C3. Whatever the memory of the object holds before construction (\<open>raw\<close>), the
  first call returns a state \<open>s1\<close> that differs from the constructed object in the state
  vector, the timestamp and the initialised flag only, and whose covariance is still the
  one of \<open>raw\<close>: neither the constructor nor the initialisation branch assigns it. The sigma-point generation of the next call's prediction copies these coefficients
  into the top left corner of the augmented covariance, of which it takes the Cholesky
  factor. Nothing makes them symmetric or positive semi-definite: the witness runs the
  first call on a covariance content with \<open>P(0,1) = 1\<close>, \<open>P(1,0) = 0\<close> and
  \<open>P(0,0) = -1\<close>.
\<close>

theorem covariance_not_assigned_at_initialization:
  "\<exists>s1. ProcessMeasurement (UKF raw) m = Inr s1
     \<and> s1 = (UKF raw)\<lparr>x_pred := x_pred s1, previous_timestamp := timestamp m,
                       is_initialized := True\<rparr>
     \<and> P_pred s1 = P_pred raw
     \<and> (r < 5 \<and> c < 5 \<longrightarrow> P_aug (GenerateSigmaPoints s1) r c = P_pred raw r c)
     \<and> (\<forall>dt. Prediction dt s1 =
           and_then (PredictSigmaPoints n_aug dt (GenerateSigmaPoints s1))
             (\<lambda>s. Inr (PredictMeanAndCovariance s)))"
  by (cases "sensor_type m")
     (simp_all add: ProcessMeasurement_def UKF_def P_aug_GenerateSigmaPoints Prediction_def Let_def)

theorem covariance_not_assigned_at_initialization_witness:
  "(0::nat) < 5 \<and> (1::nat) < 5
   \<and> (\<exists>s1. ProcessMeasurement (UKF (raw_example\<lparr>P_pred := asymmetric_example\<rparr>))
              (laser_measurement 0 0 0) = Inr s1
         \<and> P_pred s1 0 1 = 1 \<and> P_pred s1 1 0 = 0 \<and> P_pred s1 0 0 = - 1
         \<and> P_aug (GenerateSigmaPoints s1) 0 1 = 1)"
  using covariance_not_assigned_at_initialization
    [of "raw_example\<lparr>P_pred := asymmetric_example\<rparr>" "laser_measurement 0 0 0" 0 1]
  by (auto simp: asymmetric_example_def)

text \<open>
  Claim C4, as the code has it. For every real angle \<open>a\<close> the two loops return a value
  in the closed interval \<open>[-\<pi>, \<pi>]\<close> that differs from \<open>a\<close> by a whole number of turns,
  and normalising a second time changes nothing. The lower end is closed: the second loop
  runs while the angle is strictly below \<open>-\<pi>\<close>, so \<open>-\<pi>\<close> itself is a result.
\<close>

theorem angle_normalization_closed_interval:
  "- pi \<le> angle_normalization a \<and> angle_normalization a \<le> pi
   \<and> angle_normalization (angle_normalization a) = angle_normalization a
   \<and> (\<exists>k::int. angle_normalization a = a + 2 * pi * of_int k)"
  using angle_normalization_range [of a] angle_normalization_period [of a]
    angle_normalization_id [of "angle_normalization a"]
  by (simp add: M_PI_def)

text \<open>
  Claim C4 as the spec states it, with the half-open interval \<open>(-\<pi>, \<pi>]\<close>, fails at the
  angle \<open>-\<pi>\<close>: neither loop runs, and the result \<open>-\<pi>\<close> is outside of the interval.
\<close>

theorem angle_normalization_minus_pi:
  "\<not> (- pi < angle_normalization (- pi) \<and> angle_normalization (- pi) \<le> pi)"
  using angle_normalization_id [of "- pi"] by (simp add: M_PI_def)

text \<open>
  Claim C5. For every state, so for every mean \<open>x\<close> and covariance \<open>P\<close>,
  \<^verbatim>\<open>Prediction(0)\<close> returns, and in the state \<open>s'\<close> it returns: the mean is unchanged
  (each of its five components); every predicted sigma point is the state part of its
  augmented sigma point, that is, all the noise terms the process model adds are zero; and
  the four sigma points that carry the process noise (columns 6, 7, 13 and 14, the mean
  plus and minus the two noise columns of the Cholesky factor) have a zero residual, so
  that they add nothing to any entry \<open>(r, c)\<close> of the covariance.
\<close>

theorem Prediction_zero_delta_t:
  "\<exists>s'. Prediction 0 s = Inr s'
     \<and> (r < 5 \<longrightarrow> x_pred s' r = x_pred s r)
     \<and> (r < 5 \<and> i < 15 \<longrightarrow> Xsig_pred s' r i = Xsig_aug s' r i)
     \<and> (r < 5 \<and> (i = 6 \<or> i = 7 \<or> i = 13 \<or> i = 14) \<longrightarrow>
          x_diff_normalized (Xsig_pred s') (x_pred s') i r = 0
        \<and> weights s' i * x_diff_normalized (Xsig_pred s') (x_pred s') i r
             * x_diff_normalized (Xsig_pred s') (x_pred s') i c = 0)"
proof -
  let ?g = "GenerateSigmaPoints s"
  let ?t = "?g\<lparr>Xsig_pred := (\<lambda>r c. if c < 15 \<and> r < 5 then Xsig_aug ?g r c
                                    else Xsig_pred ?g r c)\<rparr>"
  let ?s' = "PredictMeanAndCovariance ?t"
  have p: "Prediction 0 s = Inr ?s'" by (rule Prediction_zero_dt)
  have x: "x_pred ?s' r = x_pred s r" if "r < 5" for r
    using x_pred_Prediction_zero_dt [OF p that] .
  have X: "Xsig_pred ?s' r i = Xsig_aug ?g r i" if "r < 5" "i < 15" for r i
    using that by (simp add: other_PredictMeanAndCovariance)
  have A: "Xsig_aug ?s' = Xsig_aug ?g" by (simp add: other_PredictMeanAndCovariance)
  have n: "Xsig_aug ?g r i = x_pred s r"
    if "r < 5" "i = 6 \<or> i = 7 \<or> i = 13 \<or> i = 14" for r i
    using that
    by (auto simp: Xsig_aug_GenerateSigmaPoints [of s] llt_matrixL_upper
        x_aug_GenerateSigmaPoints)
  have d: "x_diff_normalized (Xsig_pred ?s') (x_pred ?s') i r = 0"
    if "r < 5" "i = 6 \<or> i = 7 \<or> i = 13 \<or> i = 14" for r i
  proof -
    have i: "i < 15" using that(2) by auto
    have "3 < (5::nat)" by simp
    then have "Xsig_pred ?s' 3 i - x_pred ?s' 3 = 0"
      using X [of 3 i] x [of 3] n [of 3 i] i that(2) by simp
    moreover have "Xsig_pred ?s' r i - x_pred ?s' r = 0"
      using X [of r i] x [of r] n [of r i] i that by simp
    moreover have "angle_normalization 0 = 0"
      by (rule angle_normalization_id) (simp_all add: M_PI_def)
    ultimately show ?thesis unfolding x_diff_normalized_eq by simp
  qed
  show ?thesis
    apply (rule exI [of _ ?s'])
    apply (intro conjI impI)
    subgoal by (rule p)
    subgoal using x by blast
    subgoal using X unfolding A by blast
    subgoal using d by blast
    subgoal using d by simp
    done
qed

theorem Prediction_zero_delta_t_witness:
  "(3::nat) < 5 \<and> (6::nat) < 15
   \<and> (\<exists>s'. Prediction 0 (turning_example\<lparr>x_pred := (\<lambda>r. real r + 1)\<rparr>) = Inr s'
         \<and> x_pred s' 3 = 4
         \<and> Xsig_pred s' 3 6 = Xsig_aug s' 3 6
         \<and> x_diff_normalized (Xsig_pred s') (x_pred s') 6 3 = 0)"
  using Prediction_zero_delta_t [of "turning_example\<lparr>x_pred := (\<lambda>r. real r + 1)\<rparr>" 3 6]
  by auto

text \<open>
  Claim C6. On an uninitialised filter \<^verbatim>\<open>ProcessMeasurement\<close> returns a state \<open>s'\<close>
  with \<open>x = (\<rho> cos \<phi>, \<rho> sin \<phi>, 0, 0, 0)\<close> for a radar measurement \<open>(\<rho>, \<phi>, _)\<close> and
  \<open>x = (x, y, 0, 0, 0)\<close> for a lidar measurement \<open>(x, y)\<close>, the timestamp of the
  measurement and the initialised flag set. The last conjunct says that nothing else has
  changed: no prediction and no correction has run.
\<close>

theorem ProcessMeasurement_first_call:
  "\<not> is_initialized s \<longrightarrow>
     (\<exists>s'. ProcessMeasurement s m = Inr s'
        \<and> x_pred s' 0 = (case sensor_type m of
                           RADAR \<Rightarrow> raw_measurements m 0 * cos (raw_measurements m 1)
                         | LASER \<Rightarrow> raw_measurements m 0)
        \<and> x_pred s' 1 = (case sensor_type m of
                           RADAR \<Rightarrow> raw_measurements m 0 * sin (raw_measurements m 1)
                         | LASER \<Rightarrow> raw_measurements m 1)
        \<and> x_pred s' 2 = 0 \<and> x_pred s' 3 = 0 \<and> x_pred s' 4 = 0
        \<and> previous_timestamp s' = timestamp m
        \<and> is_initialized s'
        \<and> s' = s\<lparr>x_pred := x_pred s', previous_timestamp := timestamp m,
                  is_initialized := True\<rparr>)"
  by (cases "sensor_type m") (simp_all add: ProcessMeasurement_def comma_v_def Let_def)

theorem ProcessMeasurement_first_call_witness:
  "\<not> is_initialized (UKF raw_example)
   \<and> (\<exists>s'. ProcessMeasurement (UKF raw_example) (radar_measurement 7 2 0 1) = Inr s'
        \<and> x_pred s' 0 = 2 \<and> x_pred s' 1 = 0 \<and> x_pred s' 2 = 0 \<and> x_pred s' 3 = 0
        \<and> x_pred s' 4 = 0 \<and> previous_timestamp s' = 7 \<and> is_initialized s'
        \<and> P_pred s' = P_example)"
proof -
  have n: "\<not> is_initialized (UKF raw_example)" by (simp add: UKF_def)
  from ProcessMeasurement_first_call [of "UKF raw_example" "radar_measurement 7 2 0 1"] n
  obtain s' where s': "ProcessMeasurement (UKF raw_example) (radar_measurement 7 2 0 1) = Inr s'"
    "x_pred s' 0 = 2" "x_pred s' 1 = 0" "x_pred s' 2 = 0" "x_pred s' 3 = 0" "x_pred s' 4 = 0"
    "previous_timestamp s' = 7" "is_initialized s'"
    "s' = (UKF raw_example)\<lparr>x_pred := x_pred s', previous_timestamp := 7, is_initialized := True\<rparr>"
    by (auto simp: radar_measurement_def comma_v_def)
  have "P_pred s' = P_example"
    by (subst s'(9)) (simp add: UKF_def raw_example_def)
  with n s' show ?thesis by blast
qed

text \<open>
  Claim C7. In the loop of lines 325-343 the range-rate of a predicted sigma point \<open>i\<close>
  is the quotient of \<open>p_x * v1 + p_y * v2\<close> by \<open>sqrt(p_x * p_x + p_y * p_y)\<close>, and no test
  precedes the division. When the point is not the origin, the body writes the range, the
  bearing and this quotient into column \<open>i\<close>. When \<open>p_x = 0\<close> and \<open>p_y = 0\<close>, numerator
  and divisor are both zero and the quotient is formed all the same: its value is the NaN
  of \<open>0 / 0\<close>, whatever \<open>Zsig\<close> holds so far, and the radar update as a whole ends with
  it. When no predicted sigma point is the origin the loop fills all fifteen columns with
  these quotients; and the radar update forms a quotient by zero only in this way, at a
  sigma point that is the origin.
\<close>

theorem UpdateRadar_zero_range_division:
  "(i < 15 \<and> (Xsig_pred s 0 i \<noteq> 0 \<or> Xsig_pred s 1 i \<noteq> 0) \<longrightarrow>
      (\<exists>Z'. UpdateRadar_Zsig_body (Xsig_pred s) i Zsig = Inr Z'
         \<and> Z' 0 i = sqrt (Xsig_pred s 0 i * Xsig_pred s 0 i + Xsig_pred s 1 i * Xsig_pred s 1 i)
         \<and> Z' 1 i = atan2 (Xsig_pred s 1 i) (Xsig_pred s 0 i)
         \<and> Z' 2 i =
             (Xsig_pred s 0 i * (cos (Xsig_pred s 3 i) * Xsig_pred s 2 i)
              + Xsig_pred s 1 i * (sin (Xsig_pred s 3 i) * Xsig_pred s 2 i))
             / sqrt (Xsig_pred s 0 i * Xsig_pred s 0 i + Xsig_pred s 1 i * Xsig_pred s 1 i)))
   \<and> (i < 15 \<and> Xsig_pred s 0 i = 0 \<and> Xsig_pred s 1 i = 0 \<longrightarrow>
        Xsig_pred s 0 i * (cos (Xsig_pred s 3 i) * Xsig_pred s 2 i)
          + Xsig_pred s 1 i * (sin (Xsig_pred s 3 i) * Xsig_pred s 2 i) = 0
      \<and> sqrt (Xsig_pred s 0 i * Xsig_pred s 0 i + Xsig_pred s 1 i * Xsig_pred s 1 i) = 0
      \<and> UpdateRadar_Zsig_body (Xsig_pred s) i Zsig = Inl (DivisionByZero NaN)
      \<and> UpdateRadar s m = Inl (DivisionByZero NaN))
   \<and> ((\<forall>j<15. Xsig_pred s 0 j \<noteq> 0 \<or> Xsig_pred s 1 j \<noteq> 0) \<longrightarrow>
        (\<exists>Z'. for_loop [0..<2 * n_aug + 1] (UpdateRadar_Zsig_body (Xsig_pred s))
                 (MatrixXd 3 (2 * n_aug + 1)) = Inr Z'
           \<and> (i < 15 \<longrightarrow>
                Z' 2 i =
                  (Xsig_pred s 0 i * (cos (Xsig_pred s 3 i) * Xsig_pred s 2 i)
                   + Xsig_pred s 1 i * (sin (Xsig_pred s 3 i) * Xsig_pred s 2 i))
                  / sqrt (Xsig_pred s 0 i * Xsig_pred s 0 i
                          + Xsig_pred s 1 i * Xsig_pred s 1 i))))
   \<and> (UpdateRadar s m = Inl (DivisionByZero w) \<longrightarrow>
        w = NaN \<and> (\<exists>j<15. Xsig_pred s 0 j = 0 \<and> Xsig_pred s 1 j = 0))"
proof (intro conjI impI)
  assume h: "i < 15 \<and> (Xsig_pred s 0 i \<noteq> 0 \<or> Xsig_pred s 1 i \<noteq> 0)"
  then show "\<exists>Z'. UpdateRadar_Zsig_body (Xsig_pred s) i Zsig = Inr Z'
         \<and> Z' 0 i = sqrt (Xsig_pred s 0 i * Xsig_pred s 0 i + Xsig_pred s 1 i * Xsig_pred s 1 i)
         \<and> Z' 1 i = atan2 (Xsig_pred s 1 i) (Xsig_pred s 0 i)
         \<and> Z' 2 i =
             (Xsig_pred s 0 i * (cos (Xsig_pred s 3 i) * Xsig_pred s 2 i)
              + Xsig_pred s 1 i * (sin (Xsig_pred s 3 i) * Xsig_pred s 2 i))
             / sqrt (Xsig_pred s 0 i * Xsig_pred s 0 i + Xsig_pred s 1 i * Xsig_pred s 1 i)"
    unfolding UpdateRadar_Zsig_body_eq by (auto simp: measurement_model_def col_def)
next
  assume h: "i < 15 \<and> Xsig_pred s 0 i = 0 \<and> Xsig_pred s 1 i = 0"
  then show "Xsig_pred s 0 i * (cos (Xsig_pred s 3 i) * Xsig_pred s 2 i)
          + Xsig_pred s 1 i * (sin (Xsig_pred s 3 i) * Xsig_pred s 2 i) = 0"
    by simp
  from h show "sqrt (Xsig_pred s 0 i * Xsig_pred s 0 i + Xsig_pred s 1 i * Xsig_pred s 1 i) = 0"
    by simp
  from h show "UpdateRadar_Zsig_body (Xsig_pred s) i Zsig = Inl (DivisionByZero NaN)"
    by (simp add: UpdateRadar_Zsig_body_zero_range)
  from h show "UpdateRadar s m = Inl (DivisionByZero NaN)"
    using UpdateRadar_zero_range [of i s m] by blast
next
  assume h: "\<forall>j<15. Xsig_pred s 0 j \<noteq> 0 \<or> Xsig_pred s 1 j \<noteq> 0"
  then have "\<forall>j<2 * n_aug + 1. Xsig_pred s 0 j \<noteq> 0 \<or> Xsig_pred s 1 j \<noteq> 0"
    by (simp add: n_aug_def)
  from UpdateRadar_Zsig_loop [OF this]
  show "\<exists>Z'. for_loop [0..<2 * n_aug + 1] (UpdateRadar_Zsig_body (Xsig_pred s))
                 (MatrixXd 3 (2 * n_aug + 1)) = Inr Z'
           \<and> (i < 15 \<longrightarrow>
                Z' 2 i =
                  (Xsig_pred s 0 i * (cos (Xsig_pred s 3 i) * Xsig_pred s 2 i)
                   + Xsig_pred s 1 i * (sin (Xsig_pred s 3 i) * Xsig_pred s 2 i))
                  / sqrt (Xsig_pred s 0 i * Xsig_pred s 0 i
                          + Xsig_pred s 1 i * Xsig_pred s 1 i))"
    by (simp add: measurement_model_def col_def n_aug_def)
next
  assume "UpdateRadar s m = Inl (DivisionByZero w)"
  from UpdateRadar_fault_origin [OF this]
  show "w = NaN" and "\<exists>j<15. Xsig_pred s 0 j = 0 \<and> Xsig_pred s 1 j = 0"
    by simp_all
qed

theorem UpdateRadar_zero_range_division_witness:
  "((3::nat) < 15 \<and> Xsig_pred radar_example 0 3 = 1)
   \<and> (\<exists>Z'. UpdateRadar_Zsig_body (Xsig_pred radar_example) 3 (MatrixXd 3 15) = Inr Z'
         \<and> Z' 0 3 = 1 \<and> Z' 1 3 = 0 \<and> Z' 2 3 = 2)
   \<and> Xsig_pred radar_example 0 = (\<lambda>j. 1)
   \<and> (\<exists>Z'. for_loop [0..<2 * n_aug + 1] (UpdateRadar_Zsig_body (Xsig_pred radar_example))
                 (MatrixXd 3 (2 * n_aug + 1)) = Inr Z' \<and> Z' 2 3 = 2)
   \<and> ((0::nat) < 15 \<and> Xsig_pred (UKF raw_example) 0 0 = 0
        \<and> Xsig_pred (UKF raw_example) 1 0 = 0)
   \<and> UpdateRadar_Zsig_body (Xsig_pred (UKF raw_example)) 0 (MatrixXd 3 15)
        = Inl (DivisionByZero NaN)
   \<and> UpdateRadar (UKF raw_example) (radar_measurement 0 1 0 0) = Inl (DivisionByZero NaN)
   \<and> (\<exists>j<15. Xsig_pred (UKF raw_example) 0 j = 0 \<and> Xsig_pred (UKF raw_example) 1 j = 0)"
proof -
  have r: "Xsig_pred radar_example = (\<lambda>r c. if r = 0 then 1 else if r = 2 then 2 else 0)"
    by (simp add: radar_example_def)
  have z: "Xsig_pred (UKF raw_example) = (\<lambda>_ _. 0)"
    by (simp add: UKF_def raw_example_def)
  note A = UpdateRadar_zero_range_division
    [of 3 radar_example "MatrixXd 3 15" "radar_measurement 0 1 0 0" NaN]
  note B = UpdateRadar_zero_range_division
    [of 0 "UKF raw_example" "MatrixXd 3 15" "radar_measurement 0 1 0 0" NaN]
  have a1: "\<exists>Z'. UpdateRadar_Zsig_body (Xsig_pred radar_example) 3 (MatrixXd 3 15) = Inr Z'
         \<and> Z' 0 3 = 1 \<and> Z' 1 3 = 0 \<and> Z' 2 3 = 2"
    using A [THEN conjunct1] by (simp add: r atan2_def)
  have a3: "\<exists>Z'. for_loop [0..<2 * n_aug + 1] (UpdateRadar_Zsig_body (Xsig_pred radar_example))
                 (MatrixXd 3 (2 * n_aug + 1)) = Inr Z' \<and> Z' 2 3 = 2"
    using A [THEN conjunct2, THEN conjunct2, THEN conjunct1] by (simp add: r)
  have b2: "UpdateRadar_Zsig_body (Xsig_pred (UKF raw_example)) 0 (MatrixXd 3 15)
        = Inl (DivisionByZero NaN)"
    "UpdateRadar (UKF raw_example) (radar_measurement 0 1 0 0) = Inl (DivisionByZero NaN)"
    using B [THEN conjunct2, THEN conjunct1] by (simp_all add: z)
  have b4: "\<exists>j<15. Xsig_pred (UKF raw_example) 0 j = 0 \<and> Xsig_pred (UKF raw_example) 1 j = 0"
    using B [THEN conjunct2, THEN conjunct2, THEN conjunct2] b2(2) by simp
  show ?thesis using a1 a3 b2 b4 by (simp add: r z)
qed

text \<open>
  Claim C8. \<open>\<lambda> = 3 - n_aug\<close> with \<open>n_aug = 7\<close>; after \<^verbatim>\<open>PredictMeanAndCovariance\<close> has
  set the weights (lines 234-237), in whatever state it was called,
  \<open>weights(0) = \<lambda>/(\<lambda>+n_aug) = -4/3\<close>, every other weight \<open>weights(i)\<close>, \<open>1 \<le> i < 15\<close>, is
  \<open>1/(2(\<lambda>+n_aug)) = 1/6\<close>, and the fifteen weights add up to exactly 1.
\<close>

theorem weights_values:
  "lambda = 3 - real n_aug \<and> n_aug = 7
   \<and> weights (PredictMeanAndCovariance s) 0 = lambda / (lambda + real n_aug)
   \<and> weights (PredictMeanAndCovariance s) 0 = - (4 / 3)
   \<and> (1 \<le> i \<and> i < 15 \<longrightarrow>
         weights (PredictMeanAndCovariance s) i = 1 / (2 * (lambda + real n_aug))
         \<and> weights (PredictMeanAndCovariance s) i = 1 / 6)
   \<and> (\<Sum>i<15. weights (PredictMeanAndCovariance s) i) = 1"
  unfolding weights_PredictMeanAndCovariance
  using sum_weights [of "weights s"] by (simp add: lambda_def n_aug_def)

theorem weights_values_witness:
  "(1::nat) \<le> 5 \<and> (5::nat) < 15
   \<and> weights (PredictMeanAndCovariance raw_example) 0 = - (4 / 3)
   \<and> weights (PredictMeanAndCovariance raw_example) 5 = 1 / 6
   \<and> (\<Sum>i<15. weights (PredictMeanAndCovariance raw_example) i) = 1"
  using weights_values [of raw_example 5] by simp

text \<open>
  Claim C9. \<^verbatim>\<open>PredictSigmaPoints\<close> never ends in a division by zero. For each of the
  fifteen sigma points: when the yaw rate is above 0.001 in absolute value, it is not
  zero and the predicted position is the closed form with the quotient \<open>v / yawd\<close>; when
  it is not, the predicted position is the first-order one, which has no quotient.
\<close>

theorem PredictSigmaPoints_division_guarded:
  "\<exists>s'. PredictSigmaPoints n_aug delta_t s = Inr s'
     \<and> (i < 15 \<and> \<bar>Xsig_aug s 4 i\<bar> > 0.001 \<longrightarrow>
          Xsig_aug s 4 i \<noteq> 0
        \<and> Xsig_pred s' 0 i =
            Xsig_aug s 0 i
            + Xsig_aug s 2 i / Xsig_aug s 4 i
              * (sin (Xsig_aug s 3 i + Xsig_aug s 4 i * delta_t) - sin (Xsig_aug s 3 i))
            + 0.5 * Xsig_aug s 5 i * delta_t * delta_t * cos (Xsig_aug s 3 i)
        \<and> Xsig_pred s' 1 i =
            Xsig_aug s 1 i
            + Xsig_aug s 2 i / Xsig_aug s 4 i
              * (cos (Xsig_aug s 3 i) - cos (Xsig_aug s 3 i + Xsig_aug s 4 i * delta_t))
            + 0.5 * Xsig_aug s 5 i * delta_t * delta_t * sin (Xsig_aug s 3 i))
     \<and> (i < 15 \<and> \<not> \<bar>Xsig_aug s 4 i\<bar> > 0.001 \<longrightarrow>
          Xsig_pred s' 0 i =
            Xsig_aug s 0 i + Xsig_aug s 2 i * delta_t * cos (Xsig_aug s 3 i)
            + 0.5 * Xsig_aug s 5 i * delta_t * delta_t * cos (Xsig_aug s 3 i)
        \<and> Xsig_pred s' 1 i =
            Xsig_aug s 1 i + Xsig_aug s 2 i * delta_t * sin (Xsig_aug s 3 i)
            + 0.5 * Xsig_aug s 5 i * delta_t * delta_t * sin (Xsig_aug s 3 i))"
  unfolding PredictSigmaPoints_eq
  by (auto simp: process_model_def col_def)

theorem PredictSigmaPoints_division_guarded_witness:
  "(0::nat) < 15 \<and> \<bar>Xsig_aug turning_example 4 0\<bar> > 0.001
   \<and> (1::nat) < 15 \<and> \<not> \<bar>Xsig_aug turning_example 4 1\<bar> > 0.001
   \<and> (\<exists>s'. PredictSigmaPoints n_aug (pi / 2) turning_example = Inr s'
         \<and> Xsig_pred s' 0 0 = 2 \<and> Xsig_pred s' 1 0 = 2
         \<and> Xsig_pred s' 0 1 = 0 \<and> Xsig_pred s' 1 1 = 0)"
proof -
  have h: "(0::nat) < 15 \<and> \<bar>Xsig_aug turning_example 4 0\<bar> > 0.001"
    "(1::nat) < 15 \<and> \<not> \<bar>Xsig_aug turning_example 4 1\<bar> > 0.001"
    by (simp_all add: turning_example_def)
  from PredictSigmaPoints_division_guarded [of "pi / 2" turning_example 0] h(1)
  obtain s' where s': "PredictSigmaPoints n_aug (pi / 2) turning_example = Inr s'"
    "Xsig_pred s' 0 0 = 2" "Xsig_pred s' 1 0 = 2"
    by (auto simp: turning_example_def)
  from PredictSigmaPoints_division_guarded [of "pi / 2" turning_example 1] h(2) s'(1)
  have "Xsig_pred s' 0 1 = 0" "Xsig_pred s' 1 1 = 0"
    by (auto simp: turning_example_def)
  with h s' show ?thesis by blast
qed

text \<open>
  Claim C10. In the state that \<^verbatim>\<open>GenerateSigmaPoints\<close> returns, with \<open>L\<close> the lower
  Cholesky factor of the augmented covariance: column 0 of the sigma-point matrix is the
  augmented mean, column \<open>i + 1\<close> is the mean plus \<open>sqrt(\<lambda> + n_aug)\<close> times column \<open>i\<close> of
  \<open>L\<close>, column \<open>i + 1 + n_aug\<close> is the mean minus it (\<open>i < 7\<close>, every row \<open>r < 7\<close>), and
  \<open>sqrt(\<lambda> + n_aug) = sqrt 3\<close>. The columns are built the same way from any matrix \<open>L\<close>
  (\<open>GenerateSigmaPoints_loop\<close>).
\<close>

theorem GenerateSigmaPoints_columns:
  "r < 7 \<and> i < 7 \<longrightarrow>
     Xsig_aug (GenerateSigmaPoints s) r 0 = x_aug (GenerateSigmaPoints s) r
   \<and> Xsig_aug (GenerateSigmaPoints s) r (i + 1) =
       x_aug (GenerateSigmaPoints s) r
       + sqrt (lambda + real n_aug) * llt_matrixL 7 (P_aug (GenerateSigmaPoints s)) r i
   \<and> Xsig_aug (GenerateSigmaPoints s) r (i + 1 + n_aug) =
       x_aug (GenerateSigmaPoints s) r
       - sqrt (lambda + real n_aug) * llt_matrixL 7 (P_aug (GenerateSigmaPoints s)) r i
   \<and> sqrt (lambda + real n_aug) = sqrt 3"
  by (simp add: Xsig_aug_GenerateSigmaPoints [of s] lambda_def n_aug_def)

theorem GenerateSigmaPoints_columns_witness:
  "(3::nat) < 7 \<and> (0::nat) < 7
   \<and> Xsig_aug (GenerateSigmaPoints (initialized_example True)) 3 0 = 0
   \<and> Xsig_aug (GenerateSigmaPoints (initialized_example True)) 3 1 = sqrt 3
   \<and> Xsig_aug (GenerateSigmaPoints (initialized_example True)) 3 8 = - sqrt 3"
proof -
  have x: "x_aug (GenerateSigmaPoints (initialized_example True)) = (\<lambda>_. 0)"
    by (simp add: x_aug_GenerateSigmaPoints initialized_example_def example_filter_def
        cong: if_cong)
  show ?thesis
    using GenerateSigmaPoints_columns [of 3 0 "initialized_example True"]
    by (simp add: P_aug_example llt_matrixL_example L_example_def x lambda_def n_aug_def)
qed

end
